theory Spec2Isabelle
  imports Complex_Main
begin

section \<open>JavaScript primitives used by \<^verbatim>\<open>functions.ts\<close>\<close>

subsection \<open>Strings\<close>

text \<open>
  A JavaScript string is modelled as a \<^typ>\<open>string\<close>: a list of code units below 256.
  \<^verbatim>\<open>String.prototype.trim\<close> removes white space and line terminators at both ends; the
  ones that exist below 256 are TAB, LF, VT, FF, CR, SPACE and NBSP.
\<close>

definition js_whitespace :: "char \<Rightarrow> bool" where
  "js_whitespace c \<longleftrightarrow> (of_char c :: nat) \<in> {9, 10, 11, 12, 13, 32, 160}"

definition js_trim :: "string \<Rightarrow> string" where
  "js_trim s = rev (dropWhile js_whitespace (rev (dropWhile js_whitespace s)))"

text \<open>
  \<^verbatim>\<open>s.split(sep)\<close> for a string separator: the pieces between the successive, non-overlapping
  occurrences of \<open>sep\<close>, scanning from the left. The result always has at least one piece when
  \<open>sep\<close> is not empty; with the empty separator the string falls apart into its code units.
  \<open>js_split_from sep acc s\<close> scans \<open>s\<close> with the current piece accumulated, reversed, in \<open>acc\<close>.
\<close>

fun js_split_from :: "string \<Rightarrow> string \<Rightarrow> string \<Rightarrow> string list" where
  "js_split_from sep acc [] = [rev acc]"
| "js_split_from sep acc (c # cs) =
     (if sep \<noteq> [] \<and> take (length sep) (c # cs) = sep
      then rev acc # js_split_from sep [] (drop (length sep) (c # cs))
      else js_split_from sep (c # acc) cs)"

definition js_split :: "string \<Rightarrow> string \<Rightarrow> string list" where
  "js_split s sep = (if sep = [] then map (\<lambda>c. [c]) s else js_split_from sep [] s)"

text \<open>
  Reading \<^verbatim>\<open>xs[i]\<close>: an index past the end yields \<^verbatim>\<open>undefined\<close>, which is \<open>None\<close> here.
  Indices are natural numbers (the source passes the literals 0 and 1, \<^verbatim>\<open>index + 1\<close>, and
  the caller's \<^verbatim>\<open>segmentN\<close>, which defaults to 0).
\<close>

definition js_index :: "'a list \<Rightarrow> nat \<Rightarrow> 'a option" where
  "js_index xs i = (if i < length xs then Some (xs ! i) else None)"

subsection \<open>Numbers\<close>

text \<open>
  The numbers the upstream sends as identifiers, delays and timestamps are integers, and
  are modelled as \<^typ>\<open>int\<close>. A template literal \<^verbatim>\<open>`${n}`\<close> renders an integer \<open>n\<close> in
  decimal, with a leading minus sign when it is negative (this is the rendering of every
  integer of magnitude below \<open>10^21\<close>, which covers identifiers, status codes and
  millisecond timestamps).
\<close>

fun digits_of_nat :: "nat \<Rightarrow> string" where
  "digits_of_nat n =
     (if n < 10 then [char_of (48 + n)]
      else digits_of_nat (n div 10) @ [char_of (48 + n mod 10)])"

declare digits_of_nat.simps [simp del]

definition string_of_number :: "int \<Rightarrow> string" where
  "string_of_number i =
     (if i < 0 then CHR ''-'' # digits_of_nat (nat (- i)) else digits_of_nat (nat i))"

text \<open>
  Numbers are double-precision floats, which hold every integer of magnitude up to
  \<open>2^53 - 1\<close> exactly. The model computes with these integers; \<open>None\<close> stands for every
  other number, \<^verbatim>\<open>NaN\<close> included.
\<close>

definition safe_integer :: "int \<Rightarrow> int option" where
  "safe_integer n = (if \<bar>n\<bar> \<le> 9007199254740991 then Some n else None)"

text \<open>
  \<^verbatim>\<open>Number(v)\<close> on the values the code passes: a string piece, or \<^verbatim>\<open>undefined\<close> when the
  destructured array is too short. White space around the text is ignored, the empty text
  is 0 and a run of decimal digits is its value. Every other outcome is \<open>None\<close>:
  \<^verbatim>\<open>NaN\<close> for \<^verbatim>\<open>undefined\<close> and for text that is no numeric literal, and the signed,
  fractional, exponent and radix literals, which this model does not evaluate.
\<close>

definition is_digit :: "char \<Rightarrow> bool" where
  "is_digit c \<longleftrightarrow> 48 \<le> (of_char c :: nat) \<and> (of_char c :: nat) \<le> 57"

definition digit_value :: "char \<Rightarrow> nat" where
  "digit_value c = of_char c - 48"

definition decimal_value :: "string \<Rightarrow> nat" where
  "decimal_value s = foldl (\<lambda>a c. 10 * a + digit_value c) 0 s"

definition js_Number :: "string option \<Rightarrow> int option" where
  "js_Number v =
     (case v of
        None \<Rightarrow> None
      | Some s \<Rightarrow>
          (let t = js_trim s in
           if t = [] then Some 0
           else if list_all is_digit t then safe_integer (int (decimal_value t))
           else None))"

text \<open>
  Arithmetic on such numbers is exact as long as the result is such an integer; an operand
  outside the model gives a result outside it.
\<close>

definition js_times :: "int option \<Rightarrow> int option \<Rightarrow> int option" where
  "js_times a b = (case (a, b) of (Some x, Some y) \<Rightarrow> safe_integer (x * y) | _ \<Rightarrow> None)"

definition js_plus :: "int option \<Rightarrow> int option \<Rightarrow> int option" where
  "js_plus a b = (case (a, b) of (Some x, Some y) \<Rightarrow> safe_integer (x + y) | _ \<Rightarrow> None)"

subsection \<open>Exceptions, HTTP responses, sequencing\<close>

text \<open>
  The values that reach a \<^verbatim>\<open>catch\<close> clause: the error object with which the HTTP client
  rejects a request, a string thrown by the code itself, and the \<^verbatim>\<open>TypeError\<close> raised by
  reading a property of \<^verbatim>\<open>undefined\<close>.
\<close>

datatype js_error = AxiosError string | Thrown string | TypeError

record 'a response =
  status :: nat
  statusText :: string
  data :: 'a

text \<open>
  \<^verbatim>\<open>await axios.get(url)\<close> either rejects (\<open>Inl\<close>) or delivers a response (\<open>Inr\<close>). The
  client is a parameter of every function below: a function from the URL to this outcome,
  with the payload already decoded to the shape the code reads.
\<close>

type_synonym 'a outcome = "js_error + 'a response"

text \<open>
  A function declared to return a value but whose \<^verbatim>\<open>catch\<close> clause returns the caught
  error instead has a two-way result.
\<close>

datatype 'a returned = Value 'a | ErrorObject js_error

text \<open>
  Evaluating a sequence of computations in order, stopping at the first exception. It models
  \<^verbatim>\<open>Array.prototype.map\<close> with a callback that can throw.
\<close>

fun traverse :: "('a \<Rightarrow> 'e + 'b) \<Rightarrow> 'a list \<Rightarrow> 'e + 'b list" where
  "traverse f [] = Inr []"
| "traverse f (x # xs) =
     (case f x of
        Inl e \<Rightarrow> Inl e
      | Inr y \<Rightarrow> (case traverse f xs of Inl e \<Rightarrow> Inl e | Inr ys \<Rightarrow> Inr (y # ys)))"

text \<open>
  \<^verbatim>\<open>Promise.all\<close> is fulfilled with the results, in list order, when every promise is
  fulfilled, and is rejected with the rejection that comes first in time otherwise. The
  order in time is an input: \<open>settled\<close> lists the positions of the promises in the order in
  which they settle; positions it does not list settle after the listed ones, in list
  order. \<open>first_rejection\<close> goes through positions in that order.
\<close>

fun first_rejection :: "nat list \<Rightarrow> ('e + 'b) list \<Rightarrow> 'e option" where
  "first_rejection [] ps = None"
| "first_rejection (i # order) ps =
     (case js_index ps i of
        Some (Inl e) \<Rightarrow> Some e
      | _ \<Rightarrow> first_rejection order ps)"

definition Promise_all :: "nat list \<Rightarrow> ('e + 'b) list \<Rightarrow> 'e + 'b list" where
  "Promise_all settled ps =
     (case first_rejection (settled @ [0..<length ps]) ps of
        Some e \<Rightarrow> Inl e
      | None \<Rightarrow> traverse (\<lambda>p. p) ps)"

subsection \<open>The keyed collection \<^verbatim>\<open>Map\<close>\<close>

text \<open>
  A \<^verbatim>\<open>Map\<close> keeps its entries in the order in which their keys were first inserted;
  setting an existing key replaces the value in place. \<^verbatim>\<open>new Map(entries)\<close> sets the
  entries one after the other, \<^verbatim>\<open>values()\<close> lists the values in entry order.
\<close>

fun Map_set :: "('k \<times> 'v) list \<Rightarrow> 'k \<Rightarrow> 'v \<Rightarrow> ('k \<times> 'v) list" where
  "Map_set [] k v = [(k, v)]"
| "Map_set ((k', v') # m) k v =
     (if k' = k then (k, v) # m else (k', v') # Map_set m k v)"

definition new_Map :: "('k \<times> 'v) list \<Rightarrow> ('k \<times> 'v) list" where
  "new_Map entries = foldl (\<lambda>m (k, v). Map_set m k v) [] entries"

definition Map_values :: "('k \<times> 'v) list \<Rightarrow> 'v list" where
  "Map_values m = map snd m"

subsection \<open>The endpoints\<close>

text \<open>
  The URLs the code builds. \<open>now\<close> is the value of \<^verbatim>\<open>new Date().getTime()\<close> at the
  call, in milliseconds; a train number is passed as its text. An \<^verbatim>\<open>undefined\<close> value
  interpolated into a URL is rendered as the word.
\<close>

definition base_url :: string where
  "base_url = ''http://www.viaggiatreno.it/infomobilita/resteasy/viaggiatreno/''"

definition template_string :: "string option \<Rightarrow> string" where
  "template_string v = (case v of None \<Rightarrow> ''undefined'' | Some s \<Rightarrow> s)"

definition elencoStazioni_url :: string where
  "elencoStazioni_url = base_url @ ''elencoStazioni/0''"

definition elencoTratte_url :: "nat \<Rightarrow> string" where
  "elencoTratte_url now =
     base_url @ ''elencoTratte/0/6/ES*,IC,EXP,EC,EN,REG/null/'' @ digits_of_nat now"

definition dettagliTratta_url :: "int \<Rightarrow> int \<Rightarrow> string" where
  "dettagliTratta_url ab ba =
     base_url @ ''dettagliTratta/0/'' @ string_of_number ab @ ''/'' @ string_of_number ba @
     ''/ES*,IC,EXP,EC,EN,REG/null''"

definition regione_url :: "string \<Rightarrow> string" where
  "regione_url stationId' = base_url @ ''regione/'' @ stationId'"

definition autocomplete_url :: "string \<Rightarrow> string" where
  "autocomplete_url trainNumber' = base_url @ ''cercaNumeroTrenoTrenoAutocomplete/'' @ trainNumber'"

definition tratteCanvas_url :: "string option \<Rightarrow> string \<Rightarrow> nat \<Rightarrow> string" where
  "tratteCanvas_url stationId' trainNumber' now =
     base_url @ ''tratteCanvas/'' @ template_string stationId' @ ''/'' @ trainNumber' @ ''/'' @
     digits_of_nat now"

definition andamentoTreno_url :: "string option \<Rightarrow> string \<Rightarrow> nat \<Rightarrow> string" where
  "andamentoTreno_url stationId' trainNumber' now =
     base_url @ ''andamentoTreno/'' @ template_string stationId' @ ''/'' @ trainNumber' @ ''/'' @
     digits_of_nat now"

section \<open>The catalog fetchers\<close>

subsection \<open>\<^verbatim>\<open>getAllStations\<close>\<close>

record raw_localita =
  nomeLungo :: string

record raw_station =
  codStazione :: string
  localita :: raw_localita
  nomeCitta :: string
  lat :: real
  lon :: real

record mapStation =
  stationId :: string
  name :: string
  city :: string
  location :: "real \<times> real"

text \<open>
  The message thrown when a delivered response does not have status 200.
\<close>

definition status_message :: "'a response \<Rightarrow> string" where
  "status_message response =
     ''Status Code: '' @ digits_of_nat (status response) @ '' - '' @ statusText response"

text \<open>
  Each exported function is its \<^verbatim>\<open>try\<close> block, with every exception as an \<open>Inl\<close>
  result, followed by its \<^verbatim>\<open>catch\<close> clause.
\<close>

definition getAllStations_try ::
  "(string \<Rightarrow> raw_station list outcome) \<Rightarrow> js_error + mapStation list" where
  "getAllStations_try axios_get =
     (case axios_get elencoStazioni_url of
        Inl err \<Rightarrow> Inl err
      | Inr response \<Rightarrow>
          if status response = 200
          then Inr (map (\<lambda>el. \<lparr>stationId = codStazione el,
                                name = nomeLungo (localita el),
                                city = nomeCitta el,
                                location = (lat el, lon el)\<rparr>) (data response))
          else Inl (Thrown (status_message response)))"

definition getAllStations :: "(string \<Rightarrow> raw_station list outcome) \<Rightarrow> mapStation list" where
  "getAllStations axios_get =
     (case getAllStations_try axios_get of Inl err \<Rightarrow> [] | Inr stations \<Rightarrow> stations)"

subsection \<open>\<^verbatim>\<open>getAllSegments\<close>\<close>

record raw_segment =
  nodoA :: string
  nodoB :: string
  trattaAB :: int
  trattaBA :: int
  latitudineA :: real
  longitudineA :: real
  latitudineB :: real
  longitudineB :: real
  occupata :: bool

record mapSegment =
  stationIdA :: string
  stationIdB :: string
  segmentIdAB :: int
  segmentIdBA :: int
  locationA :: "real \<times> real"
  locationB :: "real \<times> real"
  busy :: bool

definition segment_key :: "raw_segment \<Rightarrow> string" where
  "segment_key el = string_of_number (trattaAB el) @ ''-'' @ string_of_number (trattaBA el)"

definition to_mapSegment :: "raw_segment \<Rightarrow> mapSegment" where
  "to_mapSegment el =
     \<lparr>stationIdA = nodoA el,
      stationIdB = nodoB el,
      segmentIdAB = trattaAB el,
      segmentIdBA = trattaBA el,
      locationA = (latitudineA el, longitudineA el),
      locationB = (latitudineB el, longitudineB el),
      busy = occupata el\<rparr>"

definition getAllSegments_try ::
  "bool \<Rightarrow> bool \<Rightarrow> nat \<Rightarrow> (string \<Rightarrow> raw_segment list outcome) \<Rightarrow> js_error + mapSegment list" where
  "getAllSegments_try unique busy' now axios_get =
     (case axios_get (elencoTratte_url now) of
        Inl err \<Rightarrow> Inl err
      | Inr response \<Rightarrow>
          if status response = 200
          then
            (let trainLines = data response;
                 trainLines = (if busy' then filter (\<lambda>el. occupata el) trainLines else trainLines);
                 trainLines = (if unique
                               then Map_values (new_Map (map (\<lambda>el. (segment_key el, el)) trainLines))
                               else trainLines)
             in Inr (map to_mapSegment trainLines))
          else Inl (Thrown (status_message response)))"

definition getAllSegments ::
  "bool \<Rightarrow> bool \<Rightarrow> nat \<Rightarrow> (string \<Rightarrow> raw_segment list outcome) \<Rightarrow> mapSegment list" where
  "getAllSegments unique busy' now axios_get =
     (case getAllSegments_try unique busy' now axios_get of Inl err \<Rightarrow> [] | Inr segments \<Rightarrow> segments)"

section \<open>The train aggregator \<^verbatim>\<open>getAllTrains\<close>\<close>

record raw_train =
  arrivato :: bool
  nonPartito :: bool
  circolante :: bool
  inStazione :: bool
  dataPartenzaTreno :: int
  tratta :: string
  regione :: int
  categoria :: string
  compNumeroTreno :: string
  numeroTreno :: int
  haCambiNumero :: bool
  origine :: string
  codOrigine :: string
  destinazione :: string
  codDestinazione :: string
  compDurata :: string
  ritardo :: int
  ultimoRilev :: "int option"

record raw_detail =
  treni :: "raw_train list"

record train =
  departed :: bool
  arrived :: bool
  travelling :: bool
  inStation :: bool
  departureTime :: int
  segmentId :: string
  regionId :: int
  trainCategory :: "string option"
  trainNumber :: int
  changingNumber :: bool
  stationA :: string
  stationIdA :: string
  stationB :: string
  stationIdB :: string
  travelDuration :: "int option"
  delay :: int
  latestDetection :: "int option"

text \<open>The callback of \<^verbatim>\<open>data.filter\<close> (line 91).\<close>

definition train_filter :: "raw_train \<Rightarrow> bool" where
  "train_filter el \<longleftrightarrow> \<not> arrivato el \<or> \<not> nonPartito el"

text \<open>
  The callback of the \<^verbatim>\<open>map\<close> that follows (lines 91 to 114). The destructuring
  \<^verbatim>\<open>[hours, minutes]\<close> reads the pieces 0 and 1 of the split duration.
\<close>

definition durataMin :: "raw_train \<Rightarrow> int option" where
  "durataMin el =
     (let pieces = js_split (compDurata el) '':'';
          hours = js_index pieces 0;
          minutes = js_index pieces 1
      in js_plus (js_times (js_Number hours) (Some 60)) (js_Number minutes))"

definition newData :: "raw_train \<Rightarrow> train" where
  "newData el =
     \<lparr>departed = \<not> nonPartito el,
      arrived = arrivato el,
      travelling = circolante el,
      inStation = inStazione el,
      departureTime = dataPartenzaTreno el,
      segmentId = tratta el,
      regionId = regione el,
      trainCategory = (if categoria el \<noteq> [] then Some (categoria el)
                       else js_index (js_split (js_trim (compNumeroTreno el)) '' '') 0),
      trainNumber = numeroTreno el,
      changingNumber = haCambiNumero el,
      stationA = origine el,
      stationIdA = codOrigine el,
      stationB = destinazione el,
      stationIdB = codDestinazione el,
      travelDuration = durataMin el,
      delay = ritardo el,
      latestDetection = ultimoRilev el\<rparr>"

definition train_key :: "train \<Rightarrow> string" where
  "train_key t = string_of_number (trainNumber t) @ ''-'' @ string_of_number (regionId t)"

definition noDuplicates :: "train list \<Rightarrow> train list" where
  "noDuplicates allTrains = Map_values (new_Map (map (\<lambda>t. (train_key t, t)) allTrains))"

text \<open>The URLs of the fan-out (line 86), one per segment returned by the catalog.\<close>

definition infoTratte_urls :: "nat \<Rightarrow> (string \<Rightarrow> raw_segment list outcome) \<Rightarrow> string list" where
  "infoTratte_urls now catalog_get =
     map (\<lambda>el. dettagliTratta_url (segmentIdAB el) (segmentIdBA el))
       (getAllSegments True False now catalog_get)"

text \<open>
  The two \<^verbatim>\<open>flat()\<close> of lines 88 to 90: the trains of every entry of every per-segment
  response, in order.
\<close>

definition flat_trains :: "raw_detail list response list \<Rightarrow> raw_train list" where
  "flat_trains response = concat (map (\<lambda>el. concat (map treni (data el))) response)"

text \<open>
  \<open>settled\<close> is the order in time in which the per-segment requests settle (see
  \<open>Promise_all\<close>).
\<close>

definition getAllTrains_try ::
  "nat \<Rightarrow> nat list \<Rightarrow> (string \<Rightarrow> raw_segment list outcome) \<Rightarrow>
   (string \<Rightarrow> raw_detail list outcome) \<Rightarrow> js_error + train list" where
  "getAllTrains_try now settled catalog_get axios_get =
     (let infoTratte = map axios_get (infoTratte_urls now catalog_get)
      in case Promise_all settled infoTratte of
           Inl err \<Rightarrow> Inl err
         | Inr response \<Rightarrow>
             (let allTrains = map newData (filter train_filter (flat_trains response))
              in Inr (noDuplicates allTrains)))"

definition getAllTrains ::
  "nat \<Rightarrow> nat list \<Rightarrow> (string \<Rightarrow> raw_segment list outcome) \<Rightarrow>
   (string \<Rightarrow> raw_detail list outcome) \<Rightarrow> train list returned" where
  "getAllTrains now settled catalog_get axios_get =
     (case getAllTrains_try now settled catalog_get axios_get of
        Inl err \<Rightarrow> ErrorObject err
      | Inr trains \<Rightarrow> Value trains)"

subsection \<open>\<^verbatim>\<open>getStationRegionId\<close>\<close>

definition getStationRegionId_try :: "string \<Rightarrow> (string \<Rightarrow> int outcome) \<Rightarrow> js_error + int" where
  "getStationRegionId_try stationId' axios_get =
     (case axios_get (regione_url stationId') of
        Inl err \<Rightarrow> Inl err
      | Inr res \<Rightarrow> if status res = 200 then Inr (data res) else Inl (Thrown (status_message res)))"

definition getStationRegionId :: "string \<Rightarrow> (string \<Rightarrow> int outcome) \<Rightarrow> int" where
  "getStationRegionId stationId' axios_get =
     (case getStationRegionId_try stationId' axios_get of Inl err \<Rightarrow> - 1 | Inr region \<Rightarrow> region)"

section \<open>The train locator \<^verbatim>\<open>getTrainAutocomplete\<close>\<close>

text \<open>
  The fields of a match are array reads, so each of them can be \<^verbatim>\<open>undefined\<close> (\<open>None\<close>).
\<close>

record trainAutocompleteMatch =
  trainNumber :: "string option"
  stationA :: "string option"
  stationIdA :: "string option"

text \<open>
  The callback of the \<^verbatim>\<open>map\<close> at lines 161 to 169. The object literal evaluates
  \<^verbatim>\<open>text[1].split('-')\<close> first: on a line without a pipe \<^verbatim>\<open>text[1]\<close> is
  \<^verbatim>\<open>undefined\<close> and the read throws a \<^verbatim>\<open>TypeError\<close>.
\<close>

definition parse_line :: "string \<Rightarrow> js_error + trainAutocompleteMatch" where
  "parse_line el =
     (let text = js_split el ''|''
      in case js_index text 1 of
           None \<Rightarrow> Inl TypeError
         | Some text1 \<Rightarrow>
             (case js_index text 0 of
                None \<Rightarrow> Inl TypeError
              | Some text0 \<Rightarrow>
                  Inr \<lparr>trainAutocompleteMatch.trainNumber = js_index (js_split text1 ''-'') 0,
                       trainAutocompleteMatch.stationA = js_index (js_split text0 '' - '') 1,
                       trainAutocompleteMatch.stationIdA = js_index (js_split text1 ''-'') 1\<rparr>))"

definition getTrainAutocomplete_try ::
  "string \<Rightarrow> (string \<Rightarrow> string outcome) \<Rightarrow> js_error + trainAutocompleteMatch list" where
  "getTrainAutocomplete_try trainNumber' axios_get =
     (case axios_get (autocomplete_url trainNumber') of
        Inl err \<Rightarrow> Inl err
      | Inr res \<Rightarrow>
          if status res = 200
          then
            (let response = js_split (data res) [CHR 0x0A]
             in case traverse parse_line (filter (\<lambda>el. el \<noteq> []) response) of
                  Inl err \<Rightarrow> Inl err
                | Inr result \<Rightarrow> if length result = 0 then Inr [] else Inr result)
          else Inl (Thrown ''code not 200''))"

definition getTrainAutocomplete ::
  "string \<Rightarrow> (string \<Rightarrow> string outcome) \<Rightarrow> trainAutocompleteMatch list returned" where
  "getTrainAutocomplete trainNumber' axios_get =
     (case getTrainAutocomplete_try trainNumber' axios_get of
        Inl err \<Rightarrow> ErrorObject err
      | Inr result \<Rightarrow> Value result)"

section \<open>Resolving the departure station\<close>

text \<open>
  Both stop fetchers evaluate
  \<^verbatim>\<open>stationIdA ?? (await getTrainAutocomplete(trainNumber))[segmentN].stationIdA\<close>.
  The value indexed is whatever the locator returned: an array of matches, a thrown string
  (whose entry \<open>n\<close> is its \<open>n\<close>-th character), or an error object (which has no numbered
  entries). Reading \<^verbatim>\<open>stationIdA\<close> of a missing entry throws a \<^verbatim>\<open>TypeError\<close>; reading it
  of a character yields \<^verbatim>\<open>undefined\<close>.
\<close>

datatype entry = MatchEntry trainAutocompleteMatch | CharEntry char

fun returned_index :: "trainAutocompleteMatch list returned \<Rightarrow> nat \<Rightarrow> entry option" where
  "returned_index (Value matches) n = map_option MatchEntry (js_index matches n)"
| "returned_index (ErrorObject (Thrown s)) n = map_option CharEntry (js_index s n)"
| "returned_index (ErrorObject (AxiosError m)) n = None"
| "returned_index (ErrorObject TypeError) n = None"

fun entry_stationIdA :: "entry \<Rightarrow> string option" where
  "entry_stationIdA (MatchEntry m) = trainAutocompleteMatch.stationIdA m"
| "entry_stationIdA (CharEntry c) = None"

definition resolve_stationId ::
  "string \<Rightarrow> string option \<Rightarrow> nat \<Rightarrow> (string \<Rightarrow> string outcome) \<Rightarrow> js_error + string option" where
  "resolve_stationId trainNumber' stationIdA' segmentN auto_get =
     (case stationIdA' of
        Some s \<Rightarrow> Inr (Some s)
      | None \<Rightarrow>
          (case returned_index (getTrainAutocomplete trainNumber' auto_get) segmentN of
             None \<Rightarrow> Inl TypeError
           | Some e \<Rightarrow> Inr (entry_stationIdA e)))"

section \<open>The stop fetchers\<close>

text \<open>
  One stop as the upstream reports it. Timestamps, and platform descriptions, can be
  \<^verbatim>\<open>null\<close> (\<open>None\<close>). The itinerary endpoint lists such stops directly; the canvas
  endpoint wraps each in an element that adds the flags of the drawing.
\<close>

record raw_fermata =
  stazione :: string
  id' :: string
  arrivoReale :: "int option"
  ritardoArrivo :: int
  partenzaReale :: "int option"
  ritardoPartenza :: int
  tipoFermata :: string
  actualFermataType :: int
  arrivo_teorico :: "int option"
  partenza_teorica :: "int option"
  binarioProgrammatoPartenzaDescrizione :: "string option"
  binarioProgrammatoArrivoDescrizione :: "string option"
  binarioEffettivoPartenzaDescrizione :: "string option"
  binarioEffettivoArrivoDescrizione :: "string option"

record raw_canvas =
  id' :: string
  stazione :: string
  first :: bool
  last' :: bool
  stazioneCorrente :: bool
  fermata :: raw_fermata

record trainStopInfo =
  stationId :: string
  name :: string
  isFirstStop :: bool
  isLastStop :: bool
  isCurrentStop :: bool
  expectedArrival :: "int option"
  actualArrival :: "int option"
  expectedDeparture :: "int option"
  actualDeparture :: "int option"
  delayAtArrival :: "int option"
  delayAtDeparture :: "int option"
  expectedPlatform :: "string option"
  actualPlatform :: "string option"

subsection \<open>\<^verbatim>\<open>getTrainStopsInfo\<close>\<close>

definition canvas_stop :: "raw_canvas \<Rightarrow> trainStopInfo" where
  "canvas_stop el =
     \<lparr>trainStopInfo.stationId = raw_canvas.id' el,
      trainStopInfo.name = raw_canvas.stazione el,
      isFirstStop = first el,
      isLastStop = last' el,
      isCurrentStop = stazioneCorrente el,
      expectedArrival = arrivo_teorico (fermata el),
      actualArrival = arrivoReale (fermata el),
      expectedDeparture = partenza_teorica (fermata el),
      actualDeparture = partenzaReale (fermata el),
      delayAtArrival = Some (ritardoArrivo (fermata el)),
      delayAtDeparture = Some (ritardoPartenza (fermata el)),
      expectedPlatform = (if first el then binarioProgrammatoPartenzaDescrizione (fermata el)
                          else binarioProgrammatoArrivoDescrizione (fermata el)),
      actualPlatform = (if first el then binarioEffettivoPartenzaDescrizione (fermata el)
                        else binarioEffettivoArrivoDescrizione (fermata el))\<rparr>"

definition getTrainStopsInfo_try ::
  "string \<Rightarrow> string option \<Rightarrow> nat \<Rightarrow> nat \<Rightarrow> (string \<Rightarrow> string outcome) \<Rightarrow>
   (string \<Rightarrow> raw_canvas list outcome) \<Rightarrow> js_error + trainStopInfo list" where
  "getTrainStopsInfo_try trainNumber' stationIdA' segmentN now auto_get axios_get =
     (case resolve_stationId trainNumber' stationIdA' segmentN auto_get of
        Inl err \<Rightarrow> Inl err
      | Inr stationId' \<Rightarrow>
          (case axios_get (tratteCanvas_url stationId' trainNumber' now) of
             Inl err \<Rightarrow> Inl err
           | Inr res \<Rightarrow>
               if status res = 200 then Inr (map canvas_stop (data res))
               else Inl (Thrown (status_message res))))"

definition getTrainStopsInfo ::
  "string \<Rightarrow> string option \<Rightarrow> nat \<Rightarrow> nat \<Rightarrow> (string \<Rightarrow> string outcome) \<Rightarrow>
   (string \<Rightarrow> raw_canvas list outcome) \<Rightarrow> trainStopInfo list" where
  "getTrainStopsInfo trainNumber' stationIdA' segmentN now auto_get axios_get =
     (case getTrainStopsInfo_try trainNumber' stationIdA' segmentN now auto_get axios_get of
        Inl err \<Rightarrow> []
      | Inr stops' \<Rightarrow> stops')"

subsection \<open>\<^verbatim>\<open>getTrainInfo\<close>\<close>

record raw_andamento =
  tipoTreno :: string
  fermateSoppresse :: "raw_fermata list"
  oraUltimoRilevamento :: "int option"
  stazioneUltimoRilevamento :: string
  idOrigine :: string
  idDestinazione :: string
  origine :: string
  destinazione :: string
  arrivato :: bool
  fermate :: "raw_fermata list"

record trainInfo =
  trainType :: string
  suppressedStops :: "raw_fermata list"
  lastDetection :: "int option"
  lastDetectionStationName :: "string option"
  stationIdA :: string
  stationIdB :: string
  nameA :: string
  nameB :: string
  hasArrived :: bool
  stops :: "trainStopInfo list"

text \<open>A timestamp used as a condition: \<^verbatim>\<open>null\<close> and 0 are falsy.\<close>

definition truthy :: "int option \<Rightarrow> bool" where
  "truthy v \<longleftrightarrow> (case v of None \<Rightarrow> False | Some n \<Rightarrow> n \<noteq> 0)"

text \<open>
  The expression of line 260,
  \<^verbatim>\<open>st.actualFermataType === 1 && (el.fermate[index + 1].actualFermataType === 0 || !el.fermate[index + 1])\<close>.
  The right operand of \<^verbatim>\<open>&&\<close> is evaluated only when the left one holds, and it starts by
  reading a property of \<^verbatim>\<open>el.fermate[index + 1]\<close>, which throws when there is no such
  element. An element that exists is an object, hence truthy.
\<close>

definition isCurrentStop_expr :: "raw_fermata list \<Rightarrow> raw_fermata \<Rightarrow> nat \<Rightarrow> js_error + bool" where
  "isCurrentStop_expr fermate' st index =
     (if actualFermataType st = 1
      then (case js_index fermate' (index + 1) of
              None \<Rightarrow> Inl TypeError
            | Some next \<Rightarrow> Inr (actualFermataType next = 0 \<or> js_index fermate' (index + 1) = None))
      else Inr False)"

text \<open>The callback of \<^verbatim>\<open>el.fermate.map\<close> (lines 252 to 268).\<close>

definition fermata_stop :: "raw_fermata list \<Rightarrow> raw_fermata \<times> nat \<Rightarrow> js_error + trainStopInfo" where
  "fermata_stop fermate' p =
     (case p of (st, index) \<Rightarrow>
        (case isCurrentStop_expr fermate' st index of
           Inl err \<Rightarrow> Inl err
         | Inr current \<Rightarrow>
             Inr \<lparr>trainStopInfo.stationId = raw_fermata.id' st,
                  trainStopInfo.name = raw_fermata.stazione st,
                  isFirstStop = (tipoFermata st = ''P''),
                  isLastStop = (tipoFermata st = ''A''),
                  isCurrentStop = current,
                  expectedArrival = arrivo_teorico st,
                  actualArrival = arrivoReale st,
                  expectedDeparture = partenza_teorica st,
                  actualDeparture = partenzaReale st,
                  delayAtArrival = (if truthy (arrivoReale st) then Some (ritardoArrivo st) else None),
                  delayAtDeparture = (if truthy (partenzaReale st) then Some (ritardoPartenza st) else None),
                  expectedPlatform = (if tipoFermata st = ''P''
                                      then binarioProgrammatoPartenzaDescrizione st
                                      else binarioProgrammatoArrivoDescrizione st),
                  actualPlatform = (if tipoFermata st = ''P''
                                    then binarioEffettivoPartenzaDescrizione st
                                    else binarioEffettivoArrivoDescrizione st)\<rparr>))"

definition fermate_stops :: "raw_fermata list \<Rightarrow> js_error + trainStopInfo list" where
  "fermate_stops fermate' = traverse (fermata_stop fermate') (zip fermate' [0..<length fermate'])"

definition getTrainInfo_try ::
  "string \<Rightarrow> string option \<Rightarrow> nat \<Rightarrow> nat \<Rightarrow> (string \<Rightarrow> string outcome) \<Rightarrow>
   (string \<Rightarrow> raw_andamento outcome) \<Rightarrow> js_error + trainInfo" where
  "getTrainInfo_try trainNumber' stationIdA' segmentN now auto_get axios_get =
     (case resolve_stationId trainNumber' stationIdA' segmentN auto_get of
        Inl err \<Rightarrow> Inl err
      | Inr stationId' \<Rightarrow>
          (case axios_get (andamentoTreno_url stationId' trainNumber' now) of
             Inl err \<Rightarrow> Inl err
           | Inr res \<Rightarrow>
               if status res = 200
               then
                 (let el = data res
                  in case fermate_stops (fermate el) of
                       Inl err \<Rightarrow> Inl err
                     | Inr stops' \<Rightarrow>
                         Inr \<lparr>trainType = tipoTreno el,
                              suppressedStops = fermateSoppresse el,
                              lastDetection = (if truthy (oraUltimoRilevamento el)
                                               then oraUltimoRilevamento el else None),
                              lastDetectionStationName =
                                (if stazioneUltimoRilevamento el \<noteq> ''--''
                                 then Some (stazioneUltimoRilevamento el) else None),
                              trainInfo.stationIdA = idOrigine el,
                              trainInfo.stationIdB = idDestinazione el,
                              nameA = raw_andamento.origine el,
                              nameB = raw_andamento.destinazione el,
                              hasArrived = raw_andamento.arrivato el,
                              stops = stops'\<rparr>)
               else Inl (Thrown ''code not 200'')))"

definition getTrainInfo ::
  "string \<Rightarrow> string option \<Rightarrow> nat \<Rightarrow> nat \<Rightarrow> (string \<Rightarrow> string outcome) \<Rightarrow>
   (string \<Rightarrow> raw_andamento outcome) \<Rightarrow> trainInfo returned" where
  "getTrainInfo trainNumber' stationIdA' segmentN now auto_get axios_get =
     (case getTrainInfo_try trainNumber' stationIdA' segmentN now auto_get axios_get of
        Inl err \<Rightarrow> ErrorObject err
      | Inr info \<Rightarrow> Value info)"

section \<open>Notions of the specification\<close>

text \<open>
  The specification identifies a train by its number and region, and a physical track by
  its two direction identifiers.
\<close>

definition train_identity :: "train \<Rightarrow> int \<times> int" where
  "train_identity t = (train.trainNumber t, regionId t)"

definition segment_pair :: "mapSegment \<Rightarrow> int \<times> int" where
  "segment_pair s = (segmentIdAB s, segmentIdBA s)"

definition raw_segment_pair :: "raw_segment \<Rightarrow> int \<times> int" where
  "raw_segment_pair el = (trattaAB el, trattaBA el)"

text \<open>
  A request fails when the client rejects it (a transport failure) or when the response it
  delivers does not have status 200.
\<close>

definition failed :: "'a outcome \<Rightarrow> bool" where
  "failed r \<longleftrightarrow> (case r of Inl err \<Rightarrow> True | Inr response \<Rightarrow> status response \<noteq> 200)"

text \<open>
  Delimited components, defined without reference to \<open>js_split\<close>: the text before the
  first occurrence of a separator, the text after it (if the separator occurs), and from
  these the \<open>n\<close>-th component of a text.
\<close>

fun before_first :: "string \<Rightarrow> string \<Rightarrow> string" where
  "before_first sep [] = []"
| "before_first sep (c # cs) =
     (if take (length sep) (c # cs) = sep then [] else c # before_first sep cs)"

fun after_first :: "string \<Rightarrow> string \<Rightarrow> string option" where
  "after_first sep [] = None"
| "after_first sep (c # cs) =
     (if take (length sep) (c # cs) = sep then Some (drop (length sep) (c # cs))
      else after_first sep cs)"

fun component :: "string \<Rightarrow> nat \<Rightarrow> string \<Rightarrow> string option" where
  "component sep 0 s = Some (before_first sep s)"
| "component sep (Suc n) s =
     (case after_first sep s of None \<Rightarrow> None | Some rest \<Rightarrow> component sep n rest)"

text \<open>
  The match the specification reads off one line of the autocomplete text: field 0 and
  field 1 are the pipe-delimited components; the train number and the station id are the
  hyphen-delimited components 0 and 1 of field 1, the station name is the component 1 of
  field 0 under the separator space, hyphen, space.
\<close>

definition line_match :: "string \<Rightarrow> trainAutocompleteMatch" where
  "line_match el =
     \<lparr>trainAutocompleteMatch.trainNumber = Option.bind (component ''|'' 1 el) (component ''-'' 0),
      trainAutocompleteMatch.stationA = Option.bind (component ''|'' 0 el) (component '' - '' 1),
      trainAutocompleteMatch.stationIdA = Option.bind (component ''|'' 1 el) (component ''-'' 1)\<rparr>"

text \<open>
  The first white-space-delimited token of a text: what remains before the first white
  space once leading white space is dropped.
\<close>

definition first_whitespace_token :: "string \<Rightarrow> string" where
  "first_whitespace_token s = takeWhile (\<lambda>c. \<not> js_whitespace c) (dropWhile js_whitespace s)"

section \<open>Sample data\<close>

text \<open>Two HTTP clients: one answers every request alike, one rejects every request.\<close>

definition respond :: "nat \<Rightarrow> 'a \<Rightarrow> string \<Rightarrow> 'a outcome" where
  "respond st payload url = Inr \<lparr>status = st, statusText = [], data = payload\<rparr>"

definition reject :: "string \<Rightarrow> 'a outcome" where
  "reject url = Inl (AxiosError ''Network Error'')"

definition sample_train :: raw_train where
  "sample_train =
     \<lparr>raw_train.arrivato = False, nonPartito = False, circolante = True, inStazione = False,
      dataPartenzaTreno = 1762124400000, tratta = ''12'', regione = 3, categoria = [],
      compNumeroTreno = '' FR 9516'', numeroTreno = 9516, haCambiNumero = False,
      raw_train.origine = ''MILANO CENTRALE'', codOrigine = ''S01700'',
      raw_train.destinazione = ''ROMA TERMINI'', codDestinazione = ''S08409'',
      compDurata = ''02:15'', ritardo = 0, ultimoRilev = None\<rparr>"

definition sample_segment :: raw_segment where
  "sample_segment =
     \<lparr>nodoA = ''S01700'', nodoB = ''S08409'', trattaAB = 12, trattaBA = 21,
      latitudineA = 45, longitudineA = 9, latitudineB = 42, longitudineB = 12,
      occupata = False\<rparr>"

definition sample_fermata :: raw_fermata where
  "sample_fermata =
     \<lparr>raw_fermata.stazione = ''ANCONA'', raw_fermata.id' = ''S07113'', arrivoReale = None,
      ritardoArrivo = 0, partenzaReale = None, ritardoPartenza = 0, tipoFermata = ''F'',
      actualFermataType = 0, arrivo_teorico = None, partenza_teorica = None,
      binarioProgrammatoPartenzaDescrizione = None, binarioProgrammatoArrivoDescrizione = None,
      binarioEffettivoPartenzaDescrizione = None, binarioEffettivoArrivoDescrizione = None\<rparr>"

definition sample_canvas :: raw_canvas where
  "sample_canvas =
     \<lparr>raw_canvas.id' = ''S07113'', raw_canvas.stazione = ''ANCONA'', first = True, last' = False,
      stazioneCorrente = False, fermata = sample_fermata\<rparr>"

definition sample_andamento :: "raw_fermata list \<Rightarrow> raw_andamento" where
  "sample_andamento fermate' =
     \<lparr>tipoTreno = ''PG'', fermateSoppresse = [], oraUltimoRilevamento = None,
      stazioneUltimoRilevamento = ''--'', idOrigine = ''S07113'', idDestinazione = ''S08409'',
      raw_andamento.origine = ''ANCONA'', raw_andamento.destinazione = ''ROMA TERMINI'',
      raw_andamento.arrivato = False, fermate = fermate'\<rparr>"

text \<open>A formatted train number whose category is followed by a TAB instead of a space.\<close>

definition tabbed_number :: string where
  "tabbed_number = ''FR'' @ [CHR 0x09] @ ''9516''"

text \<open>
  One line of autocomplete text, three raw trains of which the first and the last share
  number and region, three raw segments of which the first and the last share both
  direction identifiers, and an itinerary of three stops whose middle stop carries the
  marker 1.
\<close>

definition sample_line :: string where
  "sample_line = ''3914 - ANCONA - 03/11/25|3914-S07113-1762124400000''"

definition sample_raw_trains :: "raw_train list" where
  "sample_raw_trains =
     [sample_train, sample_train\<lparr>regione := 7\<rparr>, sample_train\<lparr>ritardo := 5\<rparr>]"

definition sample_segments :: "raw_segment list" where
  "sample_segments =
     [sample_segment, sample_segment\<lparr>trattaAB := 13, trattaBA := 31\<rparr>,
      sample_segment\<lparr>occupata := True\<rparr>]"

definition sample_fermate :: "raw_fermata list" where
  "sample_fermate =
     [sample_fermata\<lparr>tipoFermata := ''P''\<rparr>,
      sample_fermata\<lparr>actualFermataType := 1\<rparr>,
      sample_fermata\<lparr>tipoFermata := ''A''\<rparr>]"

section \<open>Properties of the primitives\<close>

subsection \<open>Splitting and decimal rendering\<close>

lemma js_split_from_no_sep:
  "c \<notin> set a \<Longrightarrow> js_split_from [c] acc a = [rev acc @ a]"
  by (induction a arbitrary: acc) auto

lemma js_split_from_first_sep:
  "c \<notin> set a \<Longrightarrow> js_split_from [c] acc (a @ c # b) = (rev acc @ a) # js_split_from [c] [] b"
  by (induction a arbitrary: acc) auto

lemma js_split_from_not_Nil: "js_split_from sep acc s \<noteq> []"
  by (induction sep acc s rule: js_split_from.induct) auto

lemma first_sep_unique:
  "c \<notin> set xs \<Longrightarrow> c \<notin> set xs' \<Longrightarrow> xs @ c # ys = xs' @ c # ys' \<Longrightarrow> xs = xs' \<and> ys = ys'"
proof (induction xs arbitrary: xs')
  case Nil
  then show ?case by (cases xs') auto
next
  case (Cons a xs)
  then show ?case by (cases xs') auto
qed

lemma digits_of_nat_not_Nil: "digits_of_nat n \<noteq> []"
  by (subst digits_of_nat.simps) simp

lemma of_char_digit: "d < 10 \<Longrightarrow> (of_char (char_of (48 + d :: nat)) :: nat) = 48 + d"
  by simp

lemma is_digit_char_of: "d < 10 \<Longrightarrow> is_digit (char_of (48 + d :: nat))"
  by (simp add: is_digit_def of_char_digit)

lemma digits_of_nat_digits: "list_all is_digit (digits_of_nat n)"
proof (induction n rule: digits_of_nat.induct)
  case (1 n)
  show ?case
  proof (cases "n < 10")
    case True
    then show ?thesis by (subst digits_of_nat.simps) (simp add: is_digit_char_of)
  next
    case False
    then show ?thesis using 1
      by (subst digits_of_nat.simps) (simp add: is_digit_char_of)
  qed
qed

lemma decimal_value_snoc: "decimal_value (s @ [c]) = 10 * decimal_value s + digit_value c"
  by (simp add: decimal_value_def)

lemma digit_value_char_of: "d < 10 \<Longrightarrow> digit_value (char_of (48 + d :: nat)) = d"
  by (simp add: digit_value_def of_char_digit)

lemma decimal_value_digits_of_nat: "decimal_value (digits_of_nat n) = n"
proof (induction n rule: digits_of_nat.induct)
  case (1 n)
  show ?case
  proof (cases "n < 10")
    case True
    then show ?thesis
      by (subst digits_of_nat.simps) (simp add: decimal_value_def digit_value_char_of)
  next
    case False
    then show ?thesis using 1
      by (subst digits_of_nat.simps) (simp add: decimal_value_snoc digit_value_char_of)
  qed
qed

lemma digits_of_nat_inj: "digits_of_nat m = digits_of_nat n \<Longrightarrow> m = n"
  by (metis decimal_value_digits_of_nat)


lemma not_is_digit_minus: "\<not> is_digit CHR ''-''"
  by (simp add: is_digit_def)

lemma minus_notin_digits: "CHR ''-'' \<notin> set (digits_of_nat n)"
  using digits_of_nat_digits [of n] not_is_digit_minus by (auto simp: list_all_iff)

lemma hd_digits_not_minus: "hd (digits_of_nat n) \<noteq> CHR ''-''"
  using minus_notin_digits [of n] digits_of_nat_not_Nil [of n]
  by (cases "digits_of_nat n") auto

lemma string_of_number_inj: "string_of_number a = string_of_number b \<Longrightarrow> a = b"
proof -
  assume eq: "string_of_number a = string_of_number b"
  have neg_pos: False
    if "i < 0" "0 \<le> j" "string_of_number i = string_of_number j" for i j
  proof -
    from that have "CHR ''-'' # digits_of_nat (nat (- i)) = digits_of_nat (nat j)"
      by (simp add: string_of_number_def)
    then have "hd (digits_of_nat (nat j)) = CHR ''-''"
      by (metis list.sel(1))
    then show False using hd_digits_not_minus by blast
  qed
  show "a = b"
  proof (cases "a < 0")
    case True
    show ?thesis
    proof (cases "b < 0")
      case b: True
      with True eq have "nat (- a) = nat (- b)"
        by (auto simp: string_of_number_def dest: digits_of_nat_inj)
      with True b show ?thesis by simp
    next
      case False
      with True eq neg_pos [of a b] show ?thesis by simp
    qed
  next
    case False
    show ?thesis
    proof (cases "b < 0")
      case True
      with False eq neg_pos [of b a] show ?thesis by simp
    next
      case b: False
      with False eq have "nat a = nat b"
        by (auto simp: string_of_number_def dest: digits_of_nat_inj)
      with False b show ?thesis by simp
    qed
  qed
qed

lemma string_of_number_cases:
  obtains ds where "string_of_number a = ds" "ds \<noteq> []" "CHR ''-'' \<notin> set ds"
  | ds where "string_of_number a = CHR ''-'' # ds" "ds \<noteq> []" "CHR ''-'' \<notin> set ds"
  using digits_of_nat_not_Nil minus_notin_digits
  by (cases "a < 0") (auto simp: string_of_number_def)

lemma number_key_inj:
  assumes "string_of_number a @ ''-'' @ string_of_number b =
           string_of_number a' @ ''-'' @ string_of_number b'"
  shows "a = a' \<and> b = b'"
proof -
  have "string_of_number a = string_of_number a' \<and> string_of_number b = string_of_number b'"
  proof (cases a rule: string_of_number_cases)
    case (1 ds)
    show ?thesis
    proof (cases a' rule: string_of_number_cases)
      case a': (1 es)
      from assms have "ds @ CHR ''-'' # string_of_number b = es @ CHR ''-'' # string_of_number b'"
        unfolding 1(1) a'(1) by simp
      from first_sep_unique [OF 1(3) a'(3) this] show ?thesis
        unfolding 1(1) a'(1) by simp
    next
      case a': (2 es)
      from assms have "ds @ CHR ''-'' # string_of_number b = CHR ''-'' # es @ CHR ''-'' # string_of_number b'"
        unfolding 1(1) a'(1) by simp
      with 1(2,3) show ?thesis by (cases ds) auto
    qed
  next
    case (2 ds)
    show ?thesis
    proof (cases a' rule: string_of_number_cases)
      case a': (1 es)
      from assms have "CHR ''-'' # ds @ CHR ''-'' # string_of_number b = es @ CHR ''-'' # string_of_number b'"
        unfolding 2(1) a'(1) by simp
      with a'(2,3) show ?thesis by (cases es) auto
    next
      case a': (2 es)
      from assms have "ds @ CHR ''-'' # string_of_number b = es @ CHR ''-'' # string_of_number b'"
        unfolding 2(1) a'(1) by simp
      from first_sep_unique [OF 2(3) a'(3) this] show ?thesis
        unfolding 2(1) a'(1) by simp
    qed
  qed
  then show ?thesis by (simp add: string_of_number_inj)
qed

lemma js_split_from_components:
  "sep \<noteq> [] \<Longrightarrow>
   js_split_from sep acc s =
     (rev acc @ before_first sep s) #
     (case after_first sep s of None \<Rightarrow> [] | Some rest \<Rightarrow> js_split_from sep [] rest)"
  by (induction sep acc s rule: js_split_from.induct) auto

lemma js_index_Cons_0: "js_index (x # xs) 0 = Some x"
  by (simp add: js_index_def)

lemma js_index_Cons_Suc: "js_index (x # xs) (Suc n) = js_index xs n"
  by (simp add: js_index_def)

lemma js_index_Nil: "js_index [] n = None"
  by (simp add: js_index_def)

lemma js_index_split:
  "sep \<noteq> [] \<Longrightarrow> js_index (js_split s sep) n = component sep n s"
proof (induction n arbitrary: s)
  case 0
  then show ?case
    by (simp add: js_split_def js_split_from_components [of sep "[]" s] js_index_Cons_0)
next
  case (Suc n)
  from Suc.prems Suc.IH show ?case
    by (simp add: js_split_def js_split_from_components [of sep "[]" s] js_index_Cons_Suc
        js_index_Nil split: option.split)
qed

subsection \<open>Keyed collections and sequencing\<close>

lemma Map_set_keys:
  "map fst (Map_set m k v) = (if k \<in> set (map fst m) then map fst m else map fst m @ [k])"
  by (induction m) (simp, force)

lemma map_of_Map_set: "map_of (Map_set m k v) = (map_of m)(k \<mapsto> v)"
  by (induction m) (auto simp: fun_eq_iff)

lemma foldl_Map_set_distinct:
  "distinct (map fst m) \<Longrightarrow> distinct (map fst (foldl (\<lambda>m (k, v). Map_set m k v) m es))"
  by (induction es arbitrary: m) (auto simp: Map_set_keys)

lemma map_of_foldl_Map_set:
  "map_of (foldl (\<lambda>m (k, v). Map_set m k v) m es) = map_of m ++ map_of (rev es)"
  by (induction es arbitrary: m) (auto simp: map_of_Map_set fun_eq_iff map_add_def split: option.splits)

lemma distinct_new_Map: "distinct (map fst (new_Map es))"
  by (simp add: new_Map_def foldl_Map_set_distinct)

lemma map_of_new_Map: "map_of (new_Map es) = map_of (rev es)"
  by (simp add: new_Map_def map_of_foldl_Map_set)

lemma traverse_all_Inr:
  "(\<And>x. x \<in> set xs \<Longrightarrow> f x = Inr (g x)) \<Longrightarrow> traverse f xs = Inr (map g xs)"
  by (induction xs) auto

lemma traverse_delivered: "traverse (\<lambda>p. p) (map Inr rs) = Inr rs"
  by (induction rs) auto

lemma first_rejection_member: "first_rejection order ps = Some e \<Longrightarrow> Inl e \<in> set ps"
proof (induction order)
  case Nil
  then show ?case by simp
next
  case (Cons i order)
  show ?case
  proof (cases "js_index ps i")
    case None
    with Cons show ?thesis by simp
  next
    case (Some p)
    then have "p \<in> set ps" by (auto simp: js_index_def split: if_splits)
    with Some Cons show ?thesis by (cases p) auto
  qed
qed

lemma first_rejection_none: "\<forall>p \<in> set ps. \<not> isl p \<Longrightarrow> first_rejection order ps = None"
proof (rule ccontr)
  assume d: "\<forall>p \<in> set ps. \<not> isl p" and "first_rejection order ps \<noteq> None"
  then obtain e where "first_rejection order ps = Some e" by blast
  then have "Inl e \<in> set ps" by (rule first_rejection_member)
  with d show False by force
qed

lemma first_rejection_found:
  "i \<in> set order \<Longrightarrow> i < length ps \<Longrightarrow> isl (ps ! i) \<Longrightarrow> first_rejection order ps \<noteq> None"
proof (induction order)
  case Nil
  then show ?case by simp
next
  case (Cons j order)
  show ?case
  proof (cases "j = i")
    case True
    with Cons.prems show ?thesis by (cases "ps ! i") (simp_all add: js_index_def)
  next
    case False
    with Cons have "first_rejection order ps \<noteq> None" by simp
    then show ?thesis by (simp split: option.split sum.split)
  qed
qed

lemma Promise_all_delivered: "Promise_all settled (map Inr rs) = Inr rs"
  by (simp add: Promise_all_def first_rejection_none traverse_delivered)

lemma Promise_all_Nil: "Promise_all settled [] = Inr []"
  using Promise_all_delivered [of settled "[]"] by simp

lemma Promise_all_rejected:
  assumes "\<exists>p \<in> set ps. isl p"
  shows "\<exists>e. Promise_all settled ps = Inl e \<and> Inl e \<in> set ps"
proof -
  from assms obtain i where "i < length ps" and "isl (ps ! i)"
    by (auto simp: in_set_conv_nth)
  then have "first_rejection (settled @ [0..<length ps]) ps \<noteq> None"
    by (intro first_rejection_found [of i]) simp_all
  then obtain e where f: "first_rejection (settled @ [0..<length ps]) ps = Some e" by blast
  then have "Inl e \<in> set ps" by (rule first_rejection_member)
  with f show ?thesis by (simp add: Promise_all_def)
qed

text \<open>
  Of two rejected promises, the one that settles first gives the rejection.
\<close>

lemma Promise_all_first_in_time:
  "Promise_all [1, 0] [Inl a, Inl b] = Inl b"
  "Promise_all [0, 1] [Inl a, Inl b] = Inl a"
  by (simp_all add: Promise_all_def js_index_def)

lemma map_of_rev_keyed:
  "map_of (rev (map (\<lambda>t. (f t, t)) ts)) k = Some u \<longleftrightarrow>
   f u = k \<and> (\<exists>pre post. ts = pre @ u # post \<and> k \<notin> f ` set post)"
proof (induction ts rule: rev_induct)
  case Nil
  then show ?case by simp
next
  case (snoc x ts)
  show ?case
  proof (cases "k = f x")
    case True
    have only_last: "u = x" if "ts @ [x] = pre @ u # post" "k \<notin> f ` set post" for pre post
    proof (cases post rule: rev_cases)
      case Nil
      with that show ?thesis by simp
    next
      case (snoc post' y)
      with that(1) have "y = x" by (metis append_Cons append_assoc last_snoc)
      with snoc that(2) True show ?thesis by simp
    qed
    have "ts @ [x] = ts @ x # [] \<and> k \<notin> f ` set []" by simp
    then have "\<exists>pre post. ts @ [x] = pre @ x # post \<and> k \<notin> f ` set post" by blast
    with only_last
    have "(\<exists>pre post. ts @ [x] = pre @ u # post \<and> k \<notin> f ` set post) \<longleftrightarrow> u = x"
      by blast
    with True show ?thesis by auto
  next
    case False
    have "(\<exists>pre post. ts @ [x] = pre @ u # post \<and> k \<notin> f ` set post) \<longleftrightarrow>
          (\<exists>pre post. ts = pre @ u # post \<and> k \<notin> f ` set post)" if "f u = k"
    proof
      assume "\<exists>pre post. ts @ [x] = pre @ u # post \<and> k \<notin> f ` set post"
      then obtain pre post where eq: "ts @ [x] = pre @ u # post" and nin: "k \<notin> f ` set post"
        by blast
      show "\<exists>pre post. ts = pre @ u # post \<and> k \<notin> f ` set post"
      proof (cases post rule: rev_cases)
        case Nil
        with eq have "u = x" by simp
        with that False show ?thesis by simp
      next
        case (snoc post' y)
        with eq have "ts @ [x] = (pre @ u # post') @ [y]" by simp
        then have "ts = pre @ u # post'" by (simp only: append1_eq_conv)
        moreover from nin snoc have "k \<notin> f ` set post'" by auto
        ultimately show ?thesis by blast
      qed
    next
      assume "\<exists>pre post. ts = pre @ u # post \<and> k \<notin> f ` set post"
      then obtain pre post where "ts = pre @ u # post" and "k \<notin> f ` set post" by blast
      with False have "ts @ [x] = pre @ u # (post @ [x]) \<and> k \<notin> f ` set (post @ [x])"
        by auto
      then show "\<exists>pre post. ts @ [x] = pre @ u # post \<and> k \<notin> f ` set post" by blast
    qed
    with False snoc show ?thesis by auto
  qed
qed

lemma new_Map_entry_iff:
  "(k, v) \<in> set (new_Map es) \<longleftrightarrow> map_of (rev es) k = Some v"
  using distinct_new_Map [of es] map_of_new_Map [of es]
  by (metis map_of_eq_Some_iff)

lemma dedup_member:
  "u \<in> set (Map_values (new_Map (map (\<lambda>t. (f t, t)) ts))) \<longleftrightarrow>
   (\<exists>pre post. ts = pre @ u # post \<and> f u \<notin> f ` set post)"
proof -
  have "u \<in> set (Map_values (new_Map (map (\<lambda>t. (f t, t)) ts))) \<longleftrightarrow>
        (\<exists>k. (k, u) \<in> set (new_Map (map (\<lambda>t. (f t, t)) ts)))"
    by (force simp: Map_values_def)
  then show ?thesis
    by (simp add: new_Map_entry_iff map_of_rev_keyed)
qed

lemma dedup_keys_fst:
  "map f (Map_values (new_Map (map (\<lambda>t. (f t, t)) ts))) = map fst (new_Map (map (\<lambda>t. (f t, t)) ts))"
proof -
  have "\<forall>p \<in> set (new_Map (map (\<lambda>t. (f t, t)) ts)). f (snd p) = fst p"
  proof
    fix p assume "p \<in> set (new_Map (map (\<lambda>t. (f t, t)) ts))"
    then have "(fst p, snd p) \<in> set (new_Map (map (\<lambda>t. (f t, t)) ts))" by simp
    then have "map_of (rev (map (\<lambda>t. (f t, t)) ts)) (fst p) = Some (snd p)"
      by (simp only: new_Map_entry_iff)
    then show "f (snd p) = fst p" by (simp add: map_of_rev_keyed)
  qed
  then show ?thesis by (simp add: Map_values_def)
qed

lemma dedup_distinct:
  "distinct (map f (Map_values (new_Map (map (\<lambda>t. (f t, t)) ts))))"
  by (simp only: dedup_keys_fst distinct_new_Map)

lemma dedup_keys:
  "f ` set (Map_values (new_Map (map (\<lambda>t. (f t, t)) ts))) = f ` set ts"
proof -
  have "set (map fst (new_Map es)) = set (map fst es)" for es :: "('k \<times> 'v) list"
  proof -
    have "dom (map_of (new_Map es)) = dom (map_of (rev es))" by (simp add: map_of_new_Map)
    then show ?thesis by (simp add: dom_map_of_conv_image_fst)
  qed
  from this [of "map (\<lambda>t. (f t, t)) ts"]
  have "set (map f (Map_values (new_Map (map (\<lambda>t. (f t, t)) ts)))) = set (map f ts)"
    by (simp only: dedup_keys_fst) (simp add: comp_def)
  then show ?thesis by simp
qed

subsection \<open>Digits, white space and evaluation\<close>

lemma digit_not_whitespace: "is_digit c \<Longrightarrow> \<not> js_whitespace c"
  by (auto simp: is_digit_def js_whitespace_def)

lemma digit_not_colon: "is_digit c \<Longrightarrow> c \<noteq> CHR '':''"
  by (auto simp: is_digit_def)

lemma dropWhile_whitespace_digits:
  "list_all is_digit s \<Longrightarrow> dropWhile js_whitespace s = s"
  by (cases s) (auto simp: digit_not_whitespace)

lemma js_trim_digits: "list_all is_digit s \<Longrightarrow> js_trim s = s"
proof -
  assume d: "list_all is_digit s"
  then have "list_all is_digit (rev s)" by (simp add: list_all_iff)
  with d show ?thesis by (simp add: js_trim_def dropWhile_whitespace_digits)
qed

lemma digit_value_le: "is_digit c \<Longrightarrow> digit_value c \<le> 9"
  by (auto simp: is_digit_def digit_value_def)

lemma decimal_value_bound: "list_all is_digit s \<Longrightarrow> decimal_value s < 10 ^ length s"
proof (induction s rule: rev_induct)
  case Nil
  then show ?case by (simp add: decimal_value_def)
next
  case (snoc c s)
  then have "decimal_value s < 10 ^ length s" and "digit_value c \<le> 9"
    by (simp_all add: digit_value_le)
  then show ?case by (simp add: decimal_value_snoc)
qed

lemma decimal_value_two_digits:
  assumes "list_all is_digit s" and "length s \<le> 2"
  shows "decimal_value s < 100"
proof -
  have "(10::nat) ^ length s \<le> 10 ^ 2"
    using assms(2) by (intro power_increasing) simp_all
  with decimal_value_bound [OF assms(1)] show ?thesis by simp
qed

lemma js_Number_digits:
  assumes "s \<noteq> []" and "list_all is_digit s" and "length s \<le> 2"
  shows "js_Number (Some s) = Some (int (decimal_value s))"
  using assms decimal_value_two_digits [of s]
  by (simp add: js_Number_def js_trim_digits safe_integer_def)

lemma js_split_two:
  "c \<notin> set a \<Longrightarrow> c \<notin> set b \<Longrightarrow> js_split (a @ [c] @ b) [c] = [a, b]"
  by (simp add: js_split_def js_split_from_first_sep js_split_from_no_sep)

lemma after_first_char: "c \<in> set s \<Longrightarrow> \<exists>rest. after_first [c] s = Some rest"
  by (induction s) auto

text \<open>
  Rewrite rules that evaluate the decimal rendering of a numeral.
\<close>

lemmas digits_eval = digits_of_nat.simps char_of_eq_iff take_bit_eq_mod

subsection \<open>Deduplication through a keyed collection\<close>

text \<open>
  Collecting values under a key \<open>f\<close> and listing the collection keeps, for every key, the
  last value that has it. The same holds for any \<open>h\<close> that identifies the same values as
  \<open>f\<close> does.
\<close>

lemma traverse_all_defined:
  assumes "\<And>x. x \<in> set xs \<Longrightarrow> \<exists>y. f x = Inr y"
  shows "traverse f xs = Inr (map (\<lambda>x. projr (f x)) xs)"
proof (rule traverse_all_Inr)
  fix x assume "x \<in> set xs"
  then obtain y where "f x = Inr y" using assms by blast
  then show "f x = Inr (projr (f x))" by simp
qed

lemma dedup_by_equivalent_key:
  assumes eqv: "\<And>a b. f a = f b \<longleftrightarrow> h a = h b"
  shows "distinct (map h (Map_values (new_Map (map (\<lambda>t. (f t, t)) ts))))"
    and "h ` set (Map_values (new_Map (map (\<lambda>t. (f t, t)) ts))) = h ` set ts"
    and "u \<in> set (Map_values (new_Map (map (\<lambda>t. (f t, t)) ts))) \<longleftrightarrow>
         (\<exists>pre post. ts = pre @ u # post \<and> h u \<notin> h ` set post)"
proof -
  let ?out = "Map_values (new_Map (map (\<lambda>t. (f t, t)) ts))"
  have img: "f x \<in> f ` A \<longleftrightarrow> h x \<in> h ` A" for x A
    using eqv by (auto simp: image_iff)
  have "distinct (map f ?out)" by (rule dedup_distinct)
  then have "distinct ?out" "inj_on f (set ?out)" by (simp_all add: distinct_map)
  moreover from \<open>inj_on f (set ?out)\<close> have "inj_on h (set ?out)"
    using eqv by (auto simp: inj_on_def)
  ultimately show "distinct (map h ?out)" by (simp add: distinct_map)
  have "f ` set ?out = f ` set ts" by (rule dedup_keys)
  then have "\<And>x. (\<exists>a \<in> set ?out. f x = f a) \<longleftrightarrow> (\<exists>a \<in> set ts. f x = f a)"
    by (metis (no_types, lifting) image_iff)
  then have *: "\<And>x. (\<exists>a \<in> set ?out. h x = h a) \<longleftrightarrow> (\<exists>a \<in> set ts. h x = h a)"
    using eqv by simp
  show "h ` set ?out = h ` set ts"
  proof (rule set_eqI)
    fix y
    show "y \<in> h ` set ?out \<longleftrightarrow> y \<in> h ` set ts"
      using * by (auto simp: image_iff)
  qed
  show "u \<in> set ?out \<longleftrightarrow> (\<exists>pre post. ts = pre @ u # post \<and> h u \<notin> h ` set post)"
    by (simp only: dedup_member img)
qed

lemma train_key_eq_iff: "train_key a = train_key b \<longleftrightarrow> train_identity a = train_identity b"
  using number_key_inj [of "train.trainNumber a" "regionId a" "train.trainNumber b" "regionId b"]
  by (auto simp: train_key_def train_identity_def)

lemma segment_key_eq_iff: "segment_key a = segment_key b \<longleftrightarrow> raw_segment_pair a = raw_segment_pair b"
  using number_key_inj [of "trattaAB a" "trattaBA a" "trattaAB b" "trattaBA b"]
  by (auto simp: segment_key_def raw_segment_pair_def)

lemma segment_pair_to_mapSegment: "segment_pair (to_mapSegment el) = raw_segment_pair el"
  by (simp add: segment_pair_def to_mapSegment_def raw_segment_pair_def)

section \<open>The train aggregator: filter and normalisation\<close>

text \<open>
  Claim C1, as the code has it. A raw record passes the aggregator's filter if and only if
  it has not arrived or it has departed, where \<open>departed\<close> is the negation of the upstream
  field \<^verbatim>\<open>nonPartito\<close>. The filter reads \<^verbatim>\<open>!el.arrivato || !el.nonPartito\<close>, and
  \<^verbatim>\<open>!el.nonPartito\<close> is the normalised \<open>departed\<close>, not its negation.
\<close>

theorem train_filter_rule:
  "train_filter el \<longleftrightarrow> \<not> arrived (newData el) \<or> departed (newData el)"
  by (simp add: train_filter_def newData_def)

text \<open>The sample record has neither arrived nor failed to depart, and is kept.\<close>

theorem train_filter_rule_witness:
  "train_filter sample_train \<and> \<not> arrived (newData sample_train) \<and> departed (newData sample_train)"
  using train_filter_rule [of sample_train] by (simp add: newData_def sample_train_def)

text \<open>
  The rule \<open>\<not> arrived \<or> \<not> departed\<close> fails on the code: a record that has arrived and
  departed is kept, and a record that has arrived without having departed is dropped.
\<close>

theorem train_filter_counterexample:
  "train_filter (sample_train\<lparr>raw_train.arrivato := True, nonPartito := False\<rparr>) \<and>
   arrived (newData (sample_train\<lparr>raw_train.arrivato := True, nonPartito := False\<rparr>)) \<and>
   departed (newData (sample_train\<lparr>raw_train.arrivato := True, nonPartito := False\<rparr>)) \<and>
   \<not> train_filter (sample_train\<lparr>raw_train.arrivato := True, nonPartito := True\<rparr>) \<and>
   arrived (newData (sample_train\<lparr>raw_train.arrivato := True, nonPartito := True\<rparr>)) \<and>
   \<not> departed (newData (sample_train\<lparr>raw_train.arrivato := True, nonPartito := True\<rparr>))"
  by (simp add: train_filter_def newData_def sample_train_def)

text \<open>
  Claim C6, as the code has it. The normalised category is the upstream category when that
  is not empty; otherwise it is the text of the trimmed formatted train number up to its
  first space character (\<^verbatim>\<open>split(' ')\<close> separates at the space only, not at other
  white space).
\<close>

theorem trainCategory_rule:
  "trainCategory (newData el) =
     Some (if categoria el \<noteq> [] then categoria el
           else before_first '' '' (js_trim (compNumeroTreno el)))"
  by (simp add: newData_def js_index_split)

text \<open>The record with no category and the number \<^verbatim>\<open>" FR 9516"\<close> gets the category FR.\<close>

theorem trainCategory_rule_witness:
  "categoria sample_train = [] \<and> compNumeroTreno sample_train = '' FR 9516'' \<and>
   trainCategory (newData sample_train) = Some ''FR''"
  using trainCategory_rule [of sample_train]
  by (simp add: sample_train_def js_trim_def js_whitespace_def)

text \<open>
  With a TAB after the category the first white-space-delimited token is FR, but the code
  yields the whole text.
\<close>

theorem trainCategory_counterexample:
  "categoria (sample_train\<lparr>compNumeroTreno := tabbed_number\<rparr>) = [] \<and>
   trainCategory (newData (sample_train\<lparr>compNumeroTreno := tabbed_number\<rparr>)) = Some tabbed_number \<and>
   first_whitespace_token (js_trim tabbed_number) = ''FR'' \<and>
   tabbed_number \<noteq> ''FR''"
  by (simp add: sample_train_def newData_def js_index_split js_trim_def js_whitespace_def
      first_whitespace_token_def tabbed_number_def)

text \<open>
  Claim C7. For a raw record whose duration field has the form HH:MM (one or two decimal
  digits, a colon, one or two decimal digits), the normalised travel duration is the hours
  times 60 plus the minutes.
\<close>

theorem travelDuration_HH_MM:
  assumes "compDurata el = hh @ '':'' @ mm"
    and "list_all is_digit hh" and "list_all is_digit mm"
    and "hh \<noteq> []" and "length hh \<le> 2"
    and "mm \<noteq> []" and "length mm \<le> 2"
  shows "travelDuration (newData el) = Some (int (decimal_value hh) * 60 + int (decimal_value mm))"
proof -
  have "CHR '':'' \<notin> set hh" "CHR '':'' \<notin> set mm"
    using assms(2,3) digit_not_colon by (auto simp: list_all_iff)
  then have "js_split (compDurata el) '':'' = [hh, mm]"
    using js_split_two [of "CHR '':''" hh mm] assms(1) by simp
  then have "durataMin el = js_plus (js_times (js_Number (Some hh)) (Some 60)) (js_Number (Some mm))"
    by (simp add: durataMin_def js_index_def)
  also have "\<dots> = Some (int (decimal_value hh) * 60 + int (decimal_value mm))"
    using assms(2-7) decimal_value_two_digits [of hh] decimal_value_two_digits [of mm]
    by (simp add: js_Number_digits js_times_def js_plus_def safe_integer_def)
  finally show ?thesis by (simp add: newData_def)
qed

text \<open>
  The sample record has the duration \<^verbatim>\<open>"02:15"\<close>, which is 135 minutes.
\<close>

theorem travelDuration_HH_MM_witness:
  "compDurata sample_train = ''02'' @ '':'' @ ''15'' \<and> list_all is_digit ''02'' \<and> list_all is_digit ''15'' \<and>
   decimal_value ''02'' = 2 \<and> decimal_value ''15'' = 15 \<and>
   travelDuration (newData sample_train) = Some 135"
proof -
  have c: "compDurata sample_train = ''02'' @ '':'' @ ''15''" by (simp add: sample_train_def)
  have d: "list_all is_digit ''02''" "list_all is_digit ''15''" by (simp_all add: is_digit_def)
  have v: "decimal_value ''02'' = 2" "decimal_value ''15'' = 15"
    by (simp_all add: decimal_value_def digit_value_def)
  from travelDuration_HH_MM [OF c d] v have "travelDuration (newData sample_train) = Some 135"
    by simp
  with c d v show ?thesis by simp
qed

section \<open>The train aggregator: deduplication\<close>

lemma noDuplicates_by_identity:
  "distinct (map train_identity (noDuplicates ts)) \<and>
   train_identity ` set (noDuplicates ts) = train_identity ` set ts \<and>
   (\<forall>u. u \<in> set (noDuplicates ts) \<longleftrightarrow>
        (\<exists>pre post. ts = pre @ u # post \<and> train_identity u \<notin> train_identity ` set post))"
  unfolding noDuplicates_def
  using dedup_by_equivalent_key [of train_key train_identity, OF train_key_eq_iff]
  by blast

text \<open>
  Claim C3. When every per-segment request is answered, the aggregator returns the kept and
  normalised trains of the responses deduplicated by the pair of train number and region:
  no two trains of the output share the pair, every pair of the normalised sequence is the
  pair of an output train, and a train is in the output exactly when it is the last train
  of the normalised sequence with its pair. So two normalised trains with the same number
  and different regions are both represented in the output, by different trains, and of
  several with the same number and region exactly one survives, the last one.
\<close>

theorem getAllTrains_deduplicates:
  assumes "map axios_get (infoTratte_urls now catalog_get) = map Inr response"
  shows "\<exists>out. getAllTrains now settled catalog_get axios_get = Value out \<and>
           distinct (map train_identity out) \<and>
           train_identity ` set out =
             train_identity ` set (map newData (filter train_filter (flat_trains response))) \<and>
           (\<forall>u. u \<in> set out \<longleftrightarrow>
                (\<exists>pre post.
                   map newData (filter train_filter (flat_trains response)) = pre @ u # post \<and>
                   train_identity u \<notin> train_identity ` set post))"
proof -
  let ?allTrains = "map newData (filter train_filter (flat_trains response))"
  have "getAllTrains now settled catalog_get axios_get = Value (noDuplicates ?allTrains)"
    using assms by (simp add: getAllTrains_def getAllTrains_try_def Promise_all_delivered)
  with noDuplicates_by_identity [of ?allTrains] show ?thesis by blast
qed

lemma infoTratte_urls_sample:
  "infoTratte_urls 0 (respond 200 [sample_segment]) = [dettagliTratta_url 12 21]"
  by (simp add: infoTratte_urls_def getAllSegments_def getAllSegments_try_def respond_def
      new_Map_def Map_values_def to_mapSegment_def sample_segment_def)

lemma sample_train_keys:
  "train_key (newData sample_train) = ''9516-3''"
  "train_key (newData (sample_train\<lparr>regione := 7\<rparr>)) = ''9516-7''"
  "train_key (newData (sample_train\<lparr>ritardo := 5\<rparr>)) = ''9516-3''"
  by (simp_all add: train_key_def newData_def sample_train_def string_of_number_def
      digits_eval)

lemma sample_train_identities:
  "map train_identity (map newData sample_raw_trains) = [(9516, 3), (9516, 7), (9516, 3)]"
  by (simp add: sample_raw_trains_def train_identity_def newData_def sample_train_def)

lemma sample_trains_kept: "filter train_filter sample_raw_trains = sample_raw_trains"
  by (simp add: sample_raw_trains_def train_filter_def sample_train_def)

lemma getAllTrains_sample:
  "getAllTrains 0 [] (respond 200 [sample_segment]) (respond 200 [\<lparr>treni = sample_raw_trains\<rparr>]) =
     Value [newData (sample_train\<lparr>ritardo := 5\<rparr>), newData (sample_train\<lparr>regione := 7\<rparr>)]"
proof -
  have "map newData (filter train_filter sample_raw_trains) =
        [newData sample_train, newData (sample_train\<lparr>regione := 7\<rparr>),
         newData (sample_train\<lparr>ritardo := 5\<rparr>)]"
    unfolding sample_trains_kept by (simp add: sample_raw_trains_def)
  then show ?thesis
    by (simp add: getAllTrains_def getAllTrains_try_def infoTratte_urls_sample Promise_all_def
        js_index_def respond_def flat_trains_def noDuplicates_def sample_train_keys new_Map_def
        Map_values_def)
qed

text \<open>
  One segment whose response lists three trains with the pairs (9516, 3), (9516, 7) and
  (9516, 3): the output holds the third in the place of the first, and the second.
\<close>

theorem getAllTrains_deduplicates_witness:
  "map train_identity (map newData (filter train_filter sample_raw_trains)) =
     [(9516, 3), (9516, 7), (9516, 3)] \<and>
   getAllTrains 0 [] (respond 200 [sample_segment]) (respond 200 [\<lparr>treni = sample_raw_trains\<rparr>]) =
     Value [newData (sample_train\<lparr>ritardo := 5\<rparr>), newData (sample_train\<lparr>regione := 7\<rparr>)] \<and>
   distinct (map train_identity
     [newData (sample_train\<lparr>ritardo := 5\<rparr>), newData (sample_train\<lparr>regione := 7\<rparr>)]) \<and>
   train_identity `
     set [newData (sample_train\<lparr>ritardo := 5\<rparr>), newData (sample_train\<lparr>regione := 7\<rparr>)] =
     {(9516, 3), (9516, 7)}"
proof -
  let ?response = "[\<lparr>status = 200, statusText = [], data = [\<lparr>treni = sample_raw_trains\<rparr>]\<rparr>]"
  have h: "map (respond 200 [\<lparr>treni = sample_raw_trains\<rparr>])
             (infoTratte_urls 0 (respond 200 [sample_segment])) = map Inr ?response"
    by (simp add: infoTratte_urls_sample respond_def)
  have f: "flat_trains ?response = sample_raw_trains" by (simp add: flat_trains_def)
  have ids: "map train_identity (map newData (filter train_filter sample_raw_trains)) =
             [(9516, 3), (9516, 7), (9516, 3)]"
    unfolding sample_trains_kept by (rule sample_train_identities)
  have "train_identity ` set (map newData (filter train_filter sample_raw_trains)) =
        set (map train_identity (map newData (filter train_filter sample_raw_trains)))"
    by (simp only: set_map)
  also have "\<dots> = {(9516, 3), (9516, 7)}" unfolding ids by auto
  finally have img: "train_identity ` set (map newData (filter train_filter sample_raw_trains)) =
                     {(9516, 3), (9516, 7)}" .
  from getAllTrains_deduplicates
         [where axios_get = "respond 200 [\<lparr>treni = sample_raw_trains\<rparr>]"
            and catalog_get = "respond 200 [sample_segment]" and now = 0 and settled = "[]", OF h]
  obtain out where
    v: "getAllTrains 0 [] (respond 200 [sample_segment]) (respond 200 [\<lparr>treni = sample_raw_trains\<rparr>]) =
          Value out"
    and d: "distinct (map train_identity out)"
    and i: "train_identity ` set out =
            train_identity ` set (map newData (filter train_filter sample_raw_trains))"
    unfolding f by blast
  from v getAllTrains_sample
  have "out = [newData (sample_train\<lparr>ritardo := 5\<rparr>), newData (sample_train\<lparr>regione := 7\<rparr>)]"
    by simp
  with d i img ids getAllTrains_sample show ?thesis by (simp only:)
qed

section \<open>The segment catalog\<close>

text \<open>
  Claim C4. With \<open>unique\<close> set, the segments returned never share a pair of direction
  identifiers, whatever the request's outcome; and when the request succeeds, the pairs
  returned are exactly the pairs of the input (after the \<open>busy\<close> filter), so there is
  exactly one record per distinct pair.
\<close>

theorem getAllSegments_unique_pairs:
  "distinct (map segment_pair (getAllSegments True busy' now axios_get)) \<and>
   (\<forall>response. axios_get (elencoTratte_url now) = Inr response \<and> status response = 200 \<longrightarrow>
      segment_pair ` set (getAllSegments True busy' now axios_get) =
      raw_segment_pair ` set (if busy' then filter occupata (data response) else data response))"
proof (cases "axios_get (elencoTratte_url now)")
  case (Inl err)
  then show ?thesis by (simp add: getAllSegments_def getAllSegments_try_def)
next
  case (Inr response)
  show ?thesis
  proof (cases "status response = 200")
    case False
    with Inr show ?thesis by (simp add: getAllSegments_def getAllSegments_try_def)
  next
    case True
    let ?lines = "if busy' then filter occupata (data response) else data response"
    let ?unique = "Map_values (new_Map (map (\<lambda>el. (segment_key el, el)) ?lines))"
    have out: "getAllSegments True busy' now axios_get = map to_mapSegment ?unique"
      using Inr True by (simp add: getAllSegments_def getAllSegments_try_def)
    have pairs: "map segment_pair (map to_mapSegment xs) = map raw_segment_pair xs" for xs
      by (simp add: segment_pair_to_mapSegment)
    have "distinct (map raw_segment_pair ?unique)"
      and "raw_segment_pair ` set ?unique = raw_segment_pair ` set ?lines"
      using dedup_by_equivalent_key(1,2) [of segment_key raw_segment_pair, OF segment_key_eq_iff]
      by blast+
    then have d: "distinct (map segment_pair (getAllSegments True busy' now axios_get))"
      and i: "segment_pair ` set (getAllSegments True busy' now axios_get) = raw_segment_pair ` set ?lines"
      unfolding out pairs by (simp_all only: pairs flip: set_map)
    have "segment_pair ` set (getAllSegments True busy' now axios_get) =
          raw_segment_pair ` set (if busy' then filter occupata (data response') else data response')"
      if "axios_get (elencoTratte_url now) = Inr response'" for response'
    proof -
      from that Inr have "response' = response" by simp
      with i show ?thesis by (simp only:)
    qed
    with d show ?thesis by blast
  qed
qed

lemma sample_segment_keys:
  "segment_key sample_segment = ''12-21''"
  "segment_key (sample_segment\<lparr>trattaAB := 13, trattaBA := 31\<rparr>) = ''13-31''"
  "segment_key (sample_segment\<lparr>occupata := True\<rparr>) = ''12-21''"
  by (simp_all add: segment_key_def sample_segment_def string_of_number_def digits_eval)

lemma getAllSegments_sample:
  "getAllSegments True False 0 (respond 200 sample_segments) =
     [to_mapSegment (sample_segment\<lparr>occupata := True\<rparr>),
      to_mapSegment (sample_segment\<lparr>trattaAB := 13, trattaBA := 31\<rparr>)]"
  by (simp add: getAllSegments_def getAllSegments_try_def respond_def sample_segments_def
      sample_segment_keys new_Map_def Map_values_def)

text \<open>
  Of the three sample segments with the pairs (12, 21), (13, 31) and (12, 21), two remain.
\<close>

theorem getAllSegments_unique_pairs_witness:
  "map raw_segment_pair sample_segments = [(12, 21), (13, 31), (12, 21)] \<and>
   map segment_pair (getAllSegments True False 0 (respond 200 sample_segments)) = [(12, 21), (13, 31)] \<and>
   distinct (map segment_pair (getAllSegments True False 0 (respond 200 sample_segments))) \<and>
   segment_pair ` set (getAllSegments True False 0 (respond 200 sample_segments)) =
     raw_segment_pair ` set sample_segments"
proof -
  let ?response = "\<lparr>status = 200, statusText = [], data = sample_segments\<rparr>"
  have r: "respond 200 sample_segments (elencoTratte_url 0) = Inr ?response \<and> status ?response = 200"
    by (simp add: respond_def)
  have "map raw_segment_pair sample_segments = [(12, 21), (13, 31), (12, 21)]"
    by (simp add: sample_segments_def raw_segment_pair_def sample_segment_def)
  moreover have "map segment_pair (getAllSegments True False 0 (respond 200 sample_segments)) =
                 [(12, 21), (13, 31)]"
    by (simp add: getAllSegments_sample segment_pair_to_mapSegment raw_segment_pair_def
        sample_segment_def)
  moreover from getAllSegments_unique_pairs [of False 0 "respond 200 sample_segments"]
  have "distinct (map segment_pair (getAllSegments True False 0 (respond 200 sample_segments)))"
    by (rule conjunct1)
  moreover from getAllSegments_unique_pairs
    [of False 0 "respond 200 sample_segments", THEN conjunct2, rule_format, OF r]
  have "segment_pair ` set (getAllSegments True False 0 (respond 200 sample_segments)) =
        raw_segment_pair ` set sample_segments"
    by simp
  ultimately show ?thesis by (intro conjI)
qed

section \<open>The train locator\<close>

lemma parse_line_match:
  assumes "CHR ''|'' \<in> set el"
  shows "parse_line el = Inr (line_match el)"
proof -
  from assms obtain rest where r: "after_first ''|'' el = Some rest"
    using after_first_char by blast
  then show ?thesis
    by (simp add: parse_line_def line_match_def js_index_split)
qed

text \<open>
  Claim C8. When the request succeeds and every non-empty line of the text has a pipe (so
  that its field 1 exists), the locator splits the text at the newlines, drops the empty
  lines and returns, in order, the match of each remaining line: the train number is the
  hyphen-delimited component 0 of field 1, the station name is the component 1 of field 0
  under the separator space, hyphen, space, and the station id is the hyphen-delimited
  component 1 of field 1.
\<close>

theorem getTrainAutocomplete_parses:
  assumes "auto_get (autocomplete_url tn) = Inr res"
    and "status res = 200"
    and "\<forall>el \<in> set (js_split (data res) [CHR 0x0A]). el \<noteq> [] \<longrightarrow> CHR ''|'' \<in> set el"
  shows "getTrainAutocomplete tn auto_get =
         Value (map line_match (filter (\<lambda>el. el \<noteq> []) (js_split (data res) [CHR 0x0A])))"
proof -
  let ?lines = "filter (\<lambda>el. el \<noteq> []) (js_split (data res) [CHR 0x0A])"
  have "traverse parse_line ?lines = Inr (map line_match ?lines)"
    using assms(3) by (intro traverse_all_Inr parse_line_match) auto
  with assms(1,2) show ?thesis
    by (simp add: getTrainAutocomplete_def getTrainAutocomplete_try_def)
qed

lemma sample_lines:
  "js_split (sample_line @ [CHR 0x0A]) [CHR 0x0A] = [sample_line, []]"
  by (simp add: sample_line_def js_split_def)

lemma sample_line_match:
  "line_match sample_line =
     \<lparr>trainAutocompleteMatch.trainNumber = Some ''3914'',
      trainAutocompleteMatch.stationA = Some ''ANCONA'',
      trainAutocompleteMatch.stationIdA = Some ''S07113''\<rparr>"
  by (simp add: sample_line_def line_match_def)

text \<open>
  The line \<^verbatim>\<open>3914 - ANCONA - 03/11/25|3914-S07113-1762124400000\<close>, followed by a
  newline, yields the train number 3914, the station ANCONA and the station id S07113.
\<close>

theorem getTrainAutocomplete_parses_witness:
  "getTrainAutocomplete ''3914'' (respond 200 (sample_line @ [CHR 0x0A])) =
     Value [\<lparr>trainAutocompleteMatch.trainNumber = Some ''3914'',
             trainAutocompleteMatch.stationA = Some ''ANCONA'',
             trainAutocompleteMatch.stationIdA = Some ''S07113''\<rparr>]"
proof -
  let ?res = "\<lparr>status = 200, statusText = [], data = sample_line @ [CHR 0x0A]\<rparr>"
  have g: "respond 200 (sample_line @ [CHR 0x0A]) (autocomplete_url ''3914'') = Inr ?res"
    by (simp add: respond_def)
  have s: "status ?res = 200" by simp
  have p: "\<forall>el \<in> set (js_split (data ?res) [CHR 0x0A]). el \<noteq> [] \<longrightarrow> CHR ''|'' \<in> set el"
    by (simp add: sample_lines) (simp add: sample_line_def)
  from getTrainAutocomplete_parses
         [where auto_get = "respond 200 (sample_line @ [CHR 0x0A])" and tn = "''3914''", OF g s p]
  show ?thesis
    by (simp add: sample_lines sample_line_match) (simp add: sample_line_def)
qed

section \<open>Failures\<close>

lemma getAllSegments_failed:
  "failed (axios_get (elencoTratte_url now)) \<Longrightarrow> getAllSegments unique busy' now axios_get = []"
  by (auto simp: failed_def getAllSegments_def getAllSegments_try_def split: sum.splits)

lemma getAllTrains_no_segments:
  "getAllSegments True False now catalog_get = [] \<Longrightarrow>
   getAllTrains now settled catalog_get axios_get = Value []"
  by (simp add: getAllTrains_def getAllTrains_try_def infoTratte_urls_def Promise_all_Nil
      flat_trains_def noDuplicates_def new_Map_def Map_values_def)

text \<open>
  Claim C9. When the segment-catalog request fails, the catalog is empty, the aggregator
  builds no per-segment request, and it returns the empty sequence, not an error object,
  whatever the per-segment client would answer and whatever the order in time.
\<close>

theorem catalog_failure_no_trains:
  assumes "failed (catalog_get (elencoTratte_url now))"
  shows "getAllSegments True False now catalog_get = [] \<and>
         infoTratte_urls now catalog_get = [] \<and>
         getAllTrains now settled catalog_get axios_get = Value []"
  using assms
  by (simp add: getAllSegments_failed getAllTrains_no_segments infoTratte_urls_def)

text \<open>
  A rejected catalog request, and one answered with status 203.
\<close>

theorem catalog_failure_no_trains_witness:
  "failed (reject (elencoTratte_url 0) :: raw_segment list outcome) \<and>
   infoTratte_urls 0 reject = [] \<and>
   getAllTrains 0 [] reject (respond 200 [\<lparr>treni = [sample_train]\<rparr>]) = Value [] \<and>
   failed (respond 203 [sample_segment] (elencoTratte_url 0)) \<and>
   getAllTrains 0 [] (respond 203 [sample_segment]) (respond 200 [\<lparr>treni = [sample_train]\<rparr>]) =
     Value []"
proof -
  have a: "failed (reject (elencoTratte_url 0) :: raw_segment list outcome)"
    by (simp add: failed_def reject_def)
  have b: "failed (respond 203 [sample_segment] (elencoTratte_url 0))"
    by (simp add: failed_def respond_def)
  from catalog_failure_no_trains [of reject 0, OF a]
       catalog_failure_no_trains [of "respond 203 [sample_segment]" 0, OF b] a b
  show ?thesis by simp
qed

text \<open>
  Claim C10. When the station id is omitted and what the locator returned has no entry at
  index \<open>segmentN\<close>, reading \<^verbatim>\<open>stationIdA\<close> of the missing entry throws inside the
  \<^verbatim>\<open>try\<close> block, no stop request is made, and the caller gets the empty sequence.
\<close>

theorem getTrainStopsInfo_missing_entry:
  assumes "returned_index (getTrainAutocomplete tn auto_get) segmentN = None"
  shows "getTrainStopsInfo_try tn None segmentN now auto_get axios_get = Inl TypeError \<and>
         getTrainStopsInfo tn None segmentN now auto_get axios_get = []"
  using assms
  by (simp add: getTrainStopsInfo_def getTrainStopsInfo_try_def resolve_stationId_def)

lemma getTrainAutocomplete_no_matches: "getTrainAutocomplete tn (respond 200 []) = Value []"
  by (simp add: getTrainAutocomplete_def getTrainAutocomplete_try_def respond_def js_split_def)

lemma getTrainAutocomplete_reject:
  "getTrainAutocomplete tn reject = ErrorObject (AxiosError ''Network Error'')"
  by (simp add: getTrainAutocomplete_def getTrainAutocomplete_try_def reject_def)

text \<open>
  No matches (an empty text), and a rejected autocomplete request whose error object has
  no numbered entries.
\<close>

theorem getTrainStopsInfo_missing_entry_witness:
  "returned_index (getTrainAutocomplete ''9516'' (respond 200 [])) 0 = None \<and>
   getTrainStopsInfo ''9516'' None 0 0 (respond 200 []) (respond 200 [sample_canvas]) = [] \<and>
   returned_index (getTrainAutocomplete ''9516'' reject) 0 = None \<and>
   getTrainStopsInfo ''9516'' None 0 0 reject (respond 200 [sample_canvas]) = []"
proof -
  have a: "returned_index (getTrainAutocomplete ''9516'' (respond 200 [])) 0 = None"
    by (simp add: getTrainAutocomplete_no_matches js_index_def)
  have b: "returned_index (getTrainAutocomplete ''9516'' reject) 0 = None"
    by (simp add: getTrainAutocomplete_reject)
  from getTrainStopsInfo_missing_entry [OF a] getTrainStopsInfo_missing_entry [OF b] a b
  show ?thesis by simp
qed

lemma getAllStations_failed:
  "failed (axios_get elencoStazioni_url) \<Longrightarrow> getAllStations axios_get = []"
  by (auto simp: failed_def getAllStations_def getAllStations_try_def split: sum.splits)

lemma getStationRegionId_failed:
  "failed (axios_get (regione_url sid)) \<Longrightarrow> getStationRegionId sid axios_get = - 1"
  by (auto simp: failed_def getStationRegionId_def getStationRegionId_try_def split: sum.splits)

lemma getTrainAutocomplete_failed:
  "failed (axios_get (autocomplete_url tn)) \<Longrightarrow>
   getTrainAutocomplete tn axios_get =
     ErrorObject (case axios_get (autocomplete_url tn) of
                    Inl err \<Rightarrow> err | Inr res \<Rightarrow> Thrown ''code not 200'')"
  by (auto simp: failed_def getTrainAutocomplete_def getTrainAutocomplete_try_def
      split: sum.splits)

lemma getTrainStopsInfo_failed:
  assumes "\<And>sid. resolve_stationId tn sidA segN auto_get = Inr sid \<Longrightarrow>
                 failed (axios_get (tratteCanvas_url sid tn now))"
  shows "getTrainStopsInfo tn sidA segN now auto_get axios_get = []"
proof (cases "resolve_stationId tn sidA segN auto_get")
  case (Inl err)
  then show ?thesis by (simp add: getTrainStopsInfo_def getTrainStopsInfo_try_def)
next
  case (Inr sid)
  with assms [OF Inr] show ?thesis
    by (auto simp: failed_def getTrainStopsInfo_def getTrainStopsInfo_try_def split: sum.splits)
qed

lemma getTrainInfo_failed:
  assumes "\<And>sid. resolve_stationId tn sidA segN auto_get = Inr sid \<Longrightarrow>
                 failed (axios_get (andamentoTreno_url sid tn now))"
  shows "getTrainInfo tn sidA segN now auto_get axios_get =
           ErrorObject (case resolve_stationId tn sidA segN auto_get of
                          Inl err \<Rightarrow> err
                        | Inr sid \<Rightarrow> (case axios_get (andamentoTreno_url sid tn now) of
                                        Inl err \<Rightarrow> err | Inr res \<Rightarrow> Thrown ''code not 200''))"
proof (cases "resolve_stationId tn sidA segN auto_get")
  case (Inl err)
  then show ?thesis by (simp add: getTrainInfo_def getTrainInfo_try_def)
next
  case (Inr sid)
  with assms [OF Inr] show ?thesis
    by (auto simp: failed_def getTrainInfo_def getTrainInfo_try_def split: sum.splits)
qed

lemma getAllTrains_rejected:
  assumes "\<exists>url \<in> set (infoTratte_urls now catalog_get). isl (axios_get url)"
  shows "\<exists>e. getAllTrains now settled catalog_get axios_get = ErrorObject e \<and>
             (\<exists>url \<in> set (infoTratte_urls now catalog_get). axios_get url = Inl e)"
proof -
  from assms have "\<exists>p \<in> set (map axios_get (infoTratte_urls now catalog_get)). isl p"
    by simp
  from Promise_all_rejected [OF this, of settled] obtain e where
    t: "Promise_all settled (map axios_get (infoTratte_urls now catalog_get)) = Inl e"
    and src: "Inl e \<in> set (map axios_get (infoTratte_urls now catalog_get))"
    by blast
  from t have "getAllTrains now settled catalog_get axios_get = ErrorObject e"
    by (simp add: getAllTrains_def getAllTrains_try_def)
  moreover from src have "\<exists>url \<in> set (infoTratte_urls now catalog_get). axios_get url = Inl e"
    by auto
  ultimately show ?thesis by blast
qed

text \<open>
  Claim C5, as the code has it. A request fails when it is rejected or answered with a
  status other than 200. When their own request fails, \<^verbatim>\<open>getAllStations\<close> and
  \<^verbatim>\<open>getAllSegments\<close> return the empty sequence and \<^verbatim>\<open>getStationRegionId\<close> returns
  \<open>-1\<close>. \<^verbatim>\<open>getTrainStopsInfo\<close> returns the empty sequence when the stop request it
  comes to make fails. \<^verbatim>\<open>getTrainAutocomplete\<close> returns the caught error, which is the
  rejection or the thrown text; so does \<^verbatim>\<open>getTrainInfo\<close> when the itinerary request it
  comes to make fails. \<^verbatim>\<open>getAllTrains\<close> returns the empty sequence when the
  segment-catalog request fails, and the rejection of a per-segment request when one is
  rejected, whatever the order in time. Nothing is stated here about a per-segment
  response that is delivered with a status other than 200. None of the functions raises:
  each result is a value of the function's result type.
\<close>

theorem failure_results:
  "(failed (stations_get elencoStazioni_url) \<longrightarrow> getAllStations stations_get = []) \<and>
   (failed (segments_get (elencoTratte_url now)) \<longrightarrow>
      getAllSegments unique busy' now segments_get = []) \<and>
   ((\<forall>sid. resolve_stationId tn sidA segN auto_get = Inr sid \<longrightarrow>
            failed (canvas_get (tratteCanvas_url sid tn now))) \<longrightarrow>
      getTrainStopsInfo tn sidA segN now auto_get canvas_get = []) \<and>
   (failed (auto_get (autocomplete_url tn)) \<longrightarrow>
      getTrainAutocomplete tn auto_get =
        ErrorObject (case auto_get (autocomplete_url tn) of
                       Inl err \<Rightarrow> err | Inr res \<Rightarrow> Thrown ''code not 200'')) \<and>
   ((\<forall>sid. resolve_stationId tn sidA segN auto_get = Inr sid \<longrightarrow>
            failed (progress_get (andamentoTreno_url sid tn now))) \<longrightarrow>
      getTrainInfo tn sidA segN now auto_get progress_get =
        ErrorObject (case resolve_stationId tn sidA segN auto_get of
                       Inl err \<Rightarrow> err
                     | Inr sid \<Rightarrow> (case progress_get (andamentoTreno_url sid tn now) of
                                     Inl err \<Rightarrow> err | Inr res \<Rightarrow> Thrown ''code not 200''))) \<and>
   (failed (region_get (regione_url sid')) \<longrightarrow> getStationRegionId sid' region_get = - 1) \<and>
   (failed (segments_get (elencoTratte_url now)) \<longrightarrow>
      getAllTrains now settled segments_get detail_get = Value []) \<and>
   ((\<exists>url \<in> set (infoTratte_urls now catalog_get). isl (detail_get url)) \<longrightarrow>
      (\<exists>e. getAllTrains now settled catalog_get detail_get = ErrorObject e \<and>
           (\<exists>url \<in> set (infoTratte_urls now catalog_get). detail_get url = Inl e)))"
proof (intro conjI impI)
  show "getAllStations stations_get = []" if "failed (stations_get elencoStazioni_url)"
    using that by (rule getAllStations_failed)
  show "getAllSegments unique busy' now segments_get = []"
    if "failed (segments_get (elencoTratte_url now))"
    using that by (rule getAllSegments_failed)
  show "getTrainStopsInfo tn sidA segN now auto_get canvas_get = []"
    if "\<forall>sid. resolve_stationId tn sidA segN auto_get = Inr sid \<longrightarrow>
              failed (canvas_get (tratteCanvas_url sid tn now))"
    using that by (intro getTrainStopsInfo_failed) blast
  show "getTrainAutocomplete tn auto_get =
          ErrorObject (case auto_get (autocomplete_url tn) of
                         Inl err \<Rightarrow> err | Inr res \<Rightarrow> Thrown ''code not 200'')"
    if "failed (auto_get (autocomplete_url tn))"
    using that by (rule getTrainAutocomplete_failed)
  show "getTrainInfo tn sidA segN now auto_get progress_get =
          ErrorObject (case resolve_stationId tn sidA segN auto_get of
                         Inl err \<Rightarrow> err
                       | Inr sid \<Rightarrow> (case progress_get (andamentoTreno_url sid tn now) of
                                       Inl err \<Rightarrow> err | Inr res \<Rightarrow> Thrown ''code not 200''))"
    if "\<forall>sid. resolve_stationId tn sidA segN auto_get = Inr sid \<longrightarrow>
              failed (progress_get (andamentoTreno_url sid tn now))"
    using that by (intro getTrainInfo_failed) blast
  show "getStationRegionId sid' region_get = - 1" if "failed (region_get (regione_url sid'))"
    using that by (rule getStationRegionId_failed)
  show "getAllTrains now settled segments_get detail_get = Value []"
    if "failed (segments_get (elencoTratte_url now))"
    using that by (intro getAllTrains_no_segments getAllSegments_failed)
  show "\<exists>e. getAllTrains now settled catalog_get detail_get = ErrorObject e \<and>
           (\<exists>url \<in> set (infoTratte_urls now catalog_get). detail_get url = Inl e)"
    if "\<exists>url \<in> set (infoTratte_urls now catalog_get). isl (detail_get url)"
    using that by (rule getAllTrains_rejected)
qed

text \<open>
  Rejected requests throughout, an itinerary request and a region request answered with
  status 203, and a rejected per-segment request after a catalog of one segment.
\<close>

theorem failure_results_witness:
  "getAllStations reject = [] \<and>
   getAllSegments True False 0 reject = [] \<and>
   getTrainStopsInfo ''9516'' (Some ''S01700'') 0 0 reject reject = [] \<and>
   getTrainAutocomplete ''9516'' reject = ErrorObject (AxiosError ''Network Error'') \<and>
   getTrainInfo ''9516'' (Some ''S01700'') 0 0 reject (respond 203 (sample_andamento [])) =
     ErrorObject (Thrown ''code not 200'') \<and>
   getStationRegionId ''S01700'' (respond 203 0) = - 1 \<and>
   getAllTrains 0 [] reject reject = Value [] \<and>
   getAllTrains 0 [] (respond 200 [sample_segment]) reject = ErrorObject (AxiosError ''Network Error'')"
proof -
  have f: "failed (reject url)" "failed (respond 203 (sample_andamento []) url)"
    "failed (respond 203 (0::int) url)" for url
    by (simp_all add: failed_def reject_def respond_def)
  have u: "\<exists>url \<in> set (infoTratte_urls 0 (respond 200 [sample_segment])). isl (reject url)"
    by (simp add: infoTratte_urls_sample reject_def)
  note r = failure_results
    [where stations_get = reject and segments_get = reject and now = 0 and settled = "[]"
       and unique = True
       and busy' = False and tn = "''9516''" and sidA = "Some ''S01700''" and segN = 0
       and auto_get = reject and canvas_get = reject
       and progress_get = "respond 203 (sample_andamento [])" and sid' = "''S01700''"
       and region_get = "respond 203 0" and detail_get = reject
       and catalog_get = "respond 200 [sample_segment]"]
  note r1 = r [THEN conjunct1, rule_format]
  note r2 = r [THEN conjunct2, THEN conjunct1, rule_format]
  note r3 = r [THEN conjunct2, THEN conjunct2, THEN conjunct1, rule_format]
  note r4 = r [THEN conjunct2, THEN conjunct2, THEN conjunct2, THEN conjunct1, rule_format]
  note r5 = r [THEN conjunct2, THEN conjunct2, THEN conjunct2, THEN conjunct2, THEN conjunct1,
               rule_format]
  note r6 = r [THEN conjunct2, THEN conjunct2, THEN conjunct2, THEN conjunct2, THEN conjunct2,
               THEN conjunct1, rule_format]
  note r7 = r [THEN conjunct2, THEN conjunct2, THEN conjunct2, THEN conjunct2, THEN conjunct2,
               THEN conjunct2, THEN conjunct1, rule_format]
  note r8 = r [THEN conjunct2, THEN conjunct2, THEN conjunct2, THEN conjunct2, THEN conjunct2,
               THEN conjunct2, THEN conjunct2, rule_format]
  have "getAllStations reject = []" by (rule r1) (rule f)
  moreover have "getAllSegments True False 0 reject = []" by (rule r2) (rule f)
  moreover have "getTrainStopsInfo ''9516'' (Some ''S01700'') 0 0 reject reject = []"
    by (rule r3) (rule f)
  moreover have "getTrainAutocomplete ''9516'' reject =
        ErrorObject (case (reject (autocomplete_url ''9516'') :: string outcome) of
                       Inl err \<Rightarrow> err | Inr res \<Rightarrow> Thrown ''code not 200'')"
    by (rule r4) (rule f)
  then have "getTrainAutocomplete ''9516'' reject = ErrorObject (AxiosError ''Network Error'')"
    by (simp add: reject_def)
  moreover have "getTrainInfo ''9516'' (Some ''S01700'') 0 0 reject (respond 203 (sample_andamento [])) =
        ErrorObject (case resolve_stationId ''9516'' (Some ''S01700'') 0 reject of
                       Inl err \<Rightarrow> err
                     | Inr sid \<Rightarrow>
                         (case respond 203 (sample_andamento []) (andamentoTreno_url sid ''9516'' 0) of
                            Inl err \<Rightarrow> err | Inr res \<Rightarrow> Thrown ''code not 200''))"
    by (rule r5) (rule f)
  then have "getTrainInfo ''9516'' (Some ''S01700'') 0 0 reject (respond 203 (sample_andamento [])) =
             ErrorObject (Thrown ''code not 200'')"
    by (simp add: resolve_stationId_def respond_def)
  moreover have "getStationRegionId ''S01700'' (respond 203 0) = - 1" by (rule r6) (rule f)
  moreover have "getAllTrains 0 [] reject reject = Value []" by (rule r7) (rule f)
  moreover from r8 [OF u]
  have "getAllTrains 0 [] (respond 200 [sample_segment]) reject =
        ErrorObject (AxiosError ''Network Error'')"
    by (auto simp: reject_def)
  ultimately show ?thesis by (intro conjI)
qed

text \<open>
  Three failures after which the claimed result does not come. A rejected catalog request
  makes \<^verbatim>\<open>getAllTrains\<close> return the empty sequence, not the error. A per-segment
  response with status 203 is processed like any other and its train is returned. An
  autocomplete response with status 203 makes the locator return the thrown text, whose
  entry 0 is a character without a \<^verbatim>\<open>stationIdA\<close>; \<^verbatim>\<open>getTrainStopsInfo\<close> goes on
  with the station \<^verbatim>\<open>undefined\<close> and returns the stops of the response it gets.
\<close>

theorem failure_results_counterexample:
  "failed (reject (elencoTratte_url 0) :: raw_segment list outcome) \<and>
   getAllTrains 0 [] reject reject = Value [] \<and>
   infoTratte_urls 0 (respond 200 [sample_segment]) = [dettagliTratta_url 12 21] \<and>
   failed (respond 203 [\<lparr>treni = [sample_train]\<rparr>] (dettagliTratta_url 12 21)) \<and>
   getAllTrains 0 [] (respond 200 [sample_segment]) (respond 203 [\<lparr>treni = [sample_train]\<rparr>]) =
     Value [newData sample_train] \<and>
   failed (respond 203 [] (autocomplete_url ''9516'')) \<and>
   getTrainStopsInfo ''9516'' None 0 0 (respond 203 []) (respond 200 [sample_canvas]) =
     [canvas_stop sample_canvas]"
proof -
  have "getAllTrains 0 [] reject reject = Value []"
    by (simp add: getAllTrains_no_segments getAllSegments_failed failed_def reject_def)
  moreover have "getAllTrains 0 [] (respond 200 [sample_segment]) (respond 203 [\<lparr>treni = [sample_train]\<rparr>]) =
     Value [newData sample_train]"
    by (simp add: getAllTrains_def getAllTrains_try_def infoTratte_urls_sample Promise_all_def
        js_index_def respond_def flat_trains_def train_filter_def sample_train_def
        noDuplicates_def new_Map_def Map_values_def)
  moreover have "getTrainAutocomplete ''9516'' (respond 203 []) = ErrorObject (Thrown ''code not 200'')"
    by (simp add: getTrainAutocomplete_def getTrainAutocomplete_try_def respond_def)
  then have "resolve_stationId ''9516'' None 0 (respond 203 []) = Inr None"
    by (simp add: resolve_stationId_def js_index_def)
  then have "getTrainStopsInfo ''9516'' None 0 0 (respond 203 []) (respond 200 [sample_canvas]) =
     [canvas_stop sample_canvas]"
    by (simp add: getTrainStopsInfo_def getTrainStopsInfo_try_def respond_def)
  ultimately show ?thesis
    by (simp add: infoTratte_urls_sample failed_def reject_def respond_def)
qed

section \<open>Current-stop inference\<close>

lemma isCurrentStop_expr_value:
  assumes "i < length fs" and "fs = [] \<or> actualFermataType (last fs) \<noteq> 1"
  shows "isCurrentStop_expr fs (fs ! i) i =
         Inr (actualFermataType (fs ! i) = 1 \<and> Suc i < length fs \<and> actualFermataType (fs ! Suc i) = 0)"
proof (cases "actualFermataType (fs ! i) = 1")
  case False
  then show ?thesis by (simp add: isCurrentStop_expr_def)
next
  case True
  from assms(1) have "fs \<noteq> []" by auto
  with assms(2) have "actualFermataType (fs ! (length fs - 1)) \<noteq> 1"
    by (simp add: last_conv_nth)
  with True have "i \<noteq> length fs - 1" by auto
  with assms(1) have "Suc i < length fs" by simp
  with True show ?thesis by (simp add: isCurrentStop_expr_def js_index_def)
qed

lemma fermata_stop_value:
  assumes "i < length fs" and "fs = [] \<or> actualFermataType (last fs) \<noteq> 1"
  shows "\<exists>y. fermata_stop fs (fs ! i, i) = Inr y \<and>
             (isCurrentStop y \<longleftrightarrow>
                actualFermataType (fs ! i) = 1 \<and> Suc i < length fs \<and> actualFermataType (fs ! Suc i) = 0)"
  by (simp add: fermata_stop_def isCurrentStop_expr_value [OF assms])

lemma fermate_stops_value:
  assumes "fs = [] \<or> actualFermataType (last fs) \<noteq> 1"
  shows "\<exists>stops'. fermate_stops fs = Inr stops' \<and> length stops' = length fs \<and>
           (\<forall>i < length fs. isCurrentStop (stops' ! i) \<longleftrightarrow>
              actualFermataType (fs ! i) = 1 \<and> Suc i < length fs \<and>
              actualFermataType (fs ! Suc i) = 0)"
proof -
  let ?ps = "zip fs [0..<length fs]"
  have elem: "p = (fs ! snd p, snd p) \<and> snd p < length fs" if "p \<in> set ?ps" for p
    using that by (auto simp: set_zip)
  have "\<exists>y. fermata_stop fs p = Inr y" if "p \<in> set ?ps" for p
    using elem [OF that] fermata_stop_value [OF _ assms, of "snd p"] by metis
  then have res: "fermate_stops fs = Inr (map (\<lambda>p. projr (fermata_stop fs p)) ?ps)"
    unfolding fermate_stops_def by (rule traverse_all_defined)
  have "isCurrentStop (map (\<lambda>p. projr (fermata_stop fs p)) ?ps ! i) \<longleftrightarrow>
        actualFermataType (fs ! i) = 1 \<and> Suc i < length fs \<and> actualFermataType (fs ! Suc i) = 0"
    if "i < length fs" for i
  proof -
    from that have "map (\<lambda>p. projr (fermata_stop fs p)) ?ps ! i = projr (fermata_stop fs (fs ! i, i))"
      by simp
    with fermata_stop_value [OF that assms] show ?thesis by auto
  qed
  with res show ?thesis by simp
qed

text \<open>
  Claim C2, as the code has it by design. When the itinerary request succeeds and the last
  stop of the itinerary does not carry the marker 1, the fetcher returns the train with one
  stop per upstream stop, and stop \<open>i\<close> is current if and only if its marker is 1, a next
  stop exists, and the marker of the next stop is 0 (the code compares the next marker with
  0, not with the sentinel). Nothing is stated here about an itinerary whose last stop
  carries the marker 1.
\<close>

theorem getTrainInfo_current_stop:
  assumes "resolve_stationId tn sidA segN auto_get = Inr sid"
    and "axios_get (andamentoTreno_url sid tn now) = Inr res"
    and "status res = 200"
    and "fermate (data res) = [] \<or> actualFermataType (last (fermate (data res))) \<noteq> 1"
  shows "\<exists>info. getTrainInfo tn sidA segN now auto_get axios_get = Value info \<and>
           length (stops info) = length (fermate (data res)) \<and>
           (\<forall>i < length (fermate (data res)).
              isCurrentStop (stops info ! i) \<longleftrightarrow>
                actualFermataType (fermate (data res) ! i) = 1 \<and>
                Suc i < length (fermate (data res)) \<and>
                actualFermataType (fermate (data res) ! Suc i) = 0)"
proof -
  from fermate_stops_value [OF assms(4)] obtain stops' where
    s: "fermate_stops (fermate (data res)) = Inr stops'"
    and l: "length stops' = length (fermate (data res))"
    and c: "\<forall>i < length (fermate (data res)).
              isCurrentStop (stops' ! i) \<longleftrightarrow>
                actualFermataType (fermate (data res) ! i) = 1 \<and>
                Suc i < length (fermate (data res)) \<and>
                actualFermataType (fermate (data res) ! Suc i) = 0"
    by blast
  from assms(1-3) s
  have "\<exists>info. getTrainInfo tn sidA segN now auto_get axios_get = Value info \<and>
               stops info = stops'"
    by (simp add: getTrainInfo_def getTrainInfo_try_def Let_def)
  with l c show ?thesis by auto
qed

text \<open>
  In the sample itinerary with the markers 0, 1, 0 the middle stop is the current one.
\<close>

theorem getTrainInfo_current_stop_witness:
  "actualFermataType (last sample_fermate) \<noteq> 1 \<and>
   (\<exists>info. getTrainInfo ''3914'' (Some ''S07113'') 0 0 reject
             (respond 200 (sample_andamento sample_fermate)) = Value info \<and>
      length (stops info) = 3 \<and>
      \<not> isCurrentStop (stops info ! 0) \<and> isCurrentStop (stops info ! 1) \<and>
      \<not> isCurrentStop (stops info ! 2))"
proof -
  let ?res = "\<lparr>status = 200, statusText = [], data = sample_andamento sample_fermate\<rparr>"
  have h: "actualFermataType (last sample_fermate) \<noteq> 1"
    by (simp add: sample_fermate_def sample_fermata_def)
  have f: "fermate (data ?res) = sample_fermate" by (simp add: sample_andamento_def)
  have a1: "resolve_stationId ''3914'' (Some ''S07113'') 0 reject = Inr (Some ''S07113'')"
    by (simp add: resolve_stationId_def)
  have a2: "respond 200 (sample_andamento sample_fermate)
              (andamentoTreno_url (Some ''S07113'') ''3914'' 0) = Inr ?res"
    by (simp add: respond_def)
  have a3: "status ?res = 200" by simp
  have a4: "fermate (data ?res) = [] \<or> actualFermataType (last (fermate (data ?res))) \<noteq> 1"
    using h by (simp only: f) simp
  from getTrainInfo_current_stop
         [where auto_get = reject and axios_get = "respond 200 (sample_andamento sample_fermate)",
          OF a1 a2 a3 a4]
  obtain info where
    v: "getTrainInfo ''3914'' (Some ''S07113'') 0 0 reject
          (respond 200 (sample_andamento sample_fermate)) = Value info"
    and l: "length (stops info) = length sample_fermate"
    and c: "\<forall>i < length sample_fermate. isCurrentStop (stops info ! i) \<longleftrightarrow>
              actualFermataType (sample_fermate ! i) = 1 \<and> Suc i < length sample_fermate \<and>
              actualFermataType (sample_fermate ! Suc i) = 0"
    unfolding f by blast
  have n: "length sample_fermate = 3" by (simp add: sample_fermate_def)
  from c n have "\<not> isCurrentStop (stops info ! 0)" "isCurrentStop (stops info ! 1)"
    "\<not> isCurrentStop (stops info ! 2)"
    by (simp_all add: sample_fermate_def sample_fermata_def)
  with h v l n show ?thesis by simp
qed

text \<open>
  A single stop with the marker 1 is a last stop carrying the sentinel: the computation
  throws a \<^verbatim>\<open>TypeError\<close> on the missing next element and the fetcher returns that
  error. A stop with the marker 1 followed by a stop with the marker 2 is not current,
  although the next marker differs from the sentinel.
\<close>

theorem getTrainInfo_current_stop_counterexample:
  "fermate_stops [sample_fermata\<lparr>actualFermataType := 1\<rparr>] = Inl TypeError \<and>
   getTrainInfo ''3914'' (Some ''S07113'') 0 0 reject
     (respond 200 (sample_andamento [sample_fermata\<lparr>actualFermataType := 1\<rparr>])) = ErrorObject TypeError \<and>
   map_sum id (map isCurrentStop)
     (fermate_stops [sample_fermata\<lparr>actualFermataType := 1\<rparr>, sample_fermata\<lparr>actualFermataType := 2\<rparr>])
     = Inr [False, False]"
proof -
  have a: "fermate_stops [sample_fermata\<lparr>actualFermataType := 1\<rparr>] = Inl TypeError"
    by (simp add: fermate_stops_def fermata_stop_def isCurrentStop_expr_def js_index_def)
  have "getTrainInfo ''3914'' (Some ''S07113'') 0 0 reject
     (respond 200 (sample_andamento [sample_fermata\<lparr>actualFermataType := 1\<rparr>])) = ErrorObject TypeError"
    by (simp add: getTrainInfo_def getTrainInfo_try_def resolve_stationId_def respond_def
        sample_andamento_def a)
  moreover have "map_sum id (map isCurrentStop)
     (fermate_stops [sample_fermata\<lparr>actualFermataType := 1\<rparr>, sample_fermata\<lparr>actualFermataType := 2\<rparr>])
     = Inr [False, False]"
    by (simp add: fermate_stops_def fermata_stop_def isCurrentStop_expr_def js_index_def upt_rec)
  ultimately show ?thesis using a by simp
qed

end
